theory Spec2Isabelle
  imports Complex_Main
begin

section \<open>Scalars, vectors and bounds\<close>

text \<open>
  The carrier of the C++ \<open>float\<close> is the type parameter \<open>'f\<close>. The functions below use
  its zero, its addition, its subtraction and its order, with the \<open>min\<close> and \<open>max\<close> of
  that order, and nothing is assumed of them: the theorems use no law of arithmetic or of
  order, so they hold of the rounding addition and subtraction of binary32 as of the exact
  ones. A \<open>float\<close> literal of the source is an argument of the function that mentions
  it, named after the literal: \<open>lit_0_01f\<close> stands for the value of \<open>0.01f\<close>. The
  comparison \<open>!=\<close> of two floats is inequality of the two values; that a NaN differs
  from itself and that the two zeros are equal is not modelled.

  \<open>float3\<close> is the three-component vector of \<open>BLI_math_vector_types.hh\<close>.
\<close>

datatype 'f float3 = float3 'f 'f 'f

fun float3_sub :: "('f::{zero,plus,minus,ord}) float3 \<Rightarrow> 'f \<Rightarrow> 'f float3" where
  "float3_sub (float3 a b c) r = float3 (a - r) (b - r) (c - r)"

fun float3_add :: "('f::{zero,plus,minus,ord}) float3 \<Rightarrow> 'f \<Rightarrow> 'f float3" where
  "float3_add (float3 a b c) r = float3 (a + r) (b + r) (c + r)"

fun float3_min :: "('f::{zero,plus,minus,ord}) float3 \<Rightarrow> 'f float3 \<Rightarrow> 'f float3" where
  "float3_min (float3 a b c) (float3 d e f) = float3 (min a d) (min b e) (min c f)"

fun float3_max :: "('f::{zero,plus,minus,ord}) float3 \<Rightarrow> 'f float3 \<Rightarrow> 'f float3" where
  "float3_max (float3 a b c) (float3 d e f) = float3 (max a d) (max b e) (max c f)"

record 'f Bounds =
  bounds_min :: "'f float3"
  bounds_max :: "'f float3"

text \<open>
  Modelled from the spec: \<open>Bounds::pad\<close>, \<open>bounds::min_max\<close>, \<open>bounds::min_max_with_radii\<close>
  and \<open>bounds::max\<close> (\<open>BLI_bounds.hh\<close>) are not in src/. The spec describes them as the
  plain bounds "expanded uniformly by that single radius value", "the axis-aligned min/max
  envelope over all positions", "an envelope that independently factors in each point's
  own radius" and a "scan-reduce" maximum that is "no value" on an empty array.
\<close>

definition pad :: "('f::{zero,plus,minus,ord}) Bounds \<Rightarrow> 'f \<Rightarrow> 'f Bounds" where
  "pad b r = \<lparr>bounds_min = float3_sub (bounds_min b) r, bounds_max = float3_add (bounds_max b) r\<rparr>"

definition min_max_step :: "('f::{zero,plus,minus,ord}) float3 \<Rightarrow> 'f Bounds \<Rightarrow> 'f Bounds" where
  "min_max_step v b = \<lparr>bounds_min = float3_min v (bounds_min b), bounds_max = float3_max v (bounds_max b)\<rparr>"

fun min_max :: "('f::{zero,plus,minus,ord}) float3 list \<Rightarrow> 'f Bounds option" where
  "min_max [] = None"
| "min_max (v # vs) = Some (fold min_max_step (v # vs) \<lparr>bounds_min = v, bounds_max = v\<rparr>)"

definition min_max_with_radii_step :: "('f::{zero,plus,minus,ord}) float3 \<times> 'f \<Rightarrow> 'f Bounds \<Rightarrow> 'f Bounds" where
  "min_max_with_radii_step vr b =
     \<lparr>bounds_min = float3_min (float3_sub (fst vr) (snd vr)) (bounds_min b),
      bounds_max = float3_max (float3_add (fst vr) (snd vr)) (bounds_max b)\<rparr>"

fun min_max_with_radii :: "('f::{zero,plus,minus,ord}) float3 list \<Rightarrow> 'f list \<Rightarrow> 'f Bounds option" where
  "min_max_with_radii [] radii = None"
| "min_max_with_radii (v # vs) [] = None"
| "min_max_with_radii (v # vs) (r # rs) =
     Some (fold min_max_with_radii_step (zip (v # vs) (r # rs))
            \<lparr>bounds_min = float3_sub v r, bounds_max = float3_add v r\<rparr>)"

fun bounds_max :: "int list \<Rightarrow> int option" where
  "bounds_max [] = None"
| "bounds_max (v # vs) = Some (fold max vs v)"

text \<open>\<open>std::clamp(v, lo, hi)\<close> of the C++ standard library.\<close>

definition std_clamp :: "int \<Rightarrow> int \<Rightarrow> int \<Rightarrow> int" where
  "std_clamp v lo hi = (if v < lo then lo else if hi < v then hi else v)"

section \<open>Faults\<close>

text \<open>
  What is undefined behaviour in the C++ is a value of the model: dereferencing an empty
  \<open>std::optional\<close>, and reading through a span whose array is missing, too short or of
  another element type.
\<close>

datatype fault = NulloptDeref | InvalidRead

section \<open>The derived-value cache\<close>

text \<open>
  Modelled from the spec: \<open>SharedCache\<close> (\<open>BLI_shared_cache.hh\<close>) is not in src/. The spec
  gives it three states, \<open>Empty\<close> (never computed), \<open>Valid(value)\<close> and \<open>Dirty\<close> (a value
  existed but is stale, "value retained but inaccessible until recomputed");
  \<open>ensure\<close> invokes the closure only when the state is not \<open>Valid\<close>, and \<open>tag_dirty\<close> turns
  \<open>Valid\<close> into \<open>Dirty\<close> and leaves \<open>Empty\<close> alone. The closure may change the state \<open>'s\<close>
  it closes over, and may fault.
\<close>

datatype 'a SharedCache = Empty | Valid 'a | Dirty 'a

fun tag_dirty :: "'a SharedCache \<Rightarrow> 'a SharedCache" where
  "tag_dirty Empty = Empty"
| "tag_dirty (Valid v) = Dirty v"
| "tag_dirty (Dirty v) = Dirty v"

fun is_cached :: "'a SharedCache \<Rightarrow> bool" where
  "is_cached (Valid v) = True"
| "is_cached Empty = False"
| "is_cached (Dirty v) = False"

definition is_dirty :: "'a SharedCache \<Rightarrow> bool" where
  "is_dirty c = (\<not> is_cached c)"

fun ensure :: "'a SharedCache \<Rightarrow> ('s \<Rightarrow> fault + 'a \<times> 's) \<Rightarrow> 's \<Rightarrow> fault + 'a SharedCache \<times> 's" where
  "ensure (Valid v) compute_fn s = Inr (Valid v, s)"
| "ensure c compute_fn s =
     (case compute_fn s of Inl e \<Rightarrow> Inl e | Inr (v, s') \<Rightarrow> Inr (Valid v, s'))"

fun cache_data :: "'a SharedCache \<Rightarrow> fault + 'a" where
  "cache_data (Valid v) = Inr v"
| "cache_data c = Inl InvalidRead"

section \<open>Attribute layers\<close>

text \<open>
  Modelled from the spec: \<open>CustomData\<close> and its functions (\<open>BKE_customdata.hh\<close>) are not in
  src/. A layer is the spec's TypedAttributeLayer: a name, an element type and a dense
  array. The array lives in memory at an address, as the \<open>void *data\<close> of the C struct
  does, so that two layers can be told apart from two copies of the same values.
\<close>

type_synonym addr = nat

datatype eCustomDataType = CD_PROP_FLOAT | CD_PROP_INT32 | CD_PROP_FLOAT3

datatype 'f cd_value = VFloat 'f | VInt int | VFloat3 "'f float3"

fun cd_default :: "eCustomDataType \<Rightarrow> ('f::{zero,plus,minus,ord}) cd_value" where
  "cd_default CD_PROP_FLOAT = VFloat 0"
| "cd_default CD_PROP_INT32 = VInt 0"
| "cd_default CD_PROP_FLOAT3 = VFloat3 (float3 0 0 0)"

record CustomDataLayer =
  layer_type :: eCustomDataType
  layer_name :: string
  layer_data :: addr

type_synonym CustomData = "CustomDataLayer list"

text \<open>
  Modelled from the spec: \<open>CPPType\<close> and \<open>cpp_type_to_custom_data_type\<close> are not in src/.
  The spec has "a closed enumeration of supported element types plus a generic typed view
  operation that performs a checked type match". A template parameter \<open>T\<close> of the source
  is a descriptor of the element type, as \<open>CPPType::get<T>()\<close> is: its layer type, the
  embedding of \<open>T\<close> into stored values and back, and the value-initialised \<open>T()\<close>.
\<close>

record ('a, 'f) CPPType =
  cd_type :: eCustomDataType
  to_value :: "'a \<Rightarrow> 'f cd_value"
  from_value :: "'f cd_value \<Rightarrow> 'a option"
  value_init :: 'a

fun float_from_value :: "'f cd_value \<Rightarrow> 'f option" where
  "float_from_value (VFloat f) = Some f"
| "float_from_value v = None"

fun int_from_value :: "'f cd_value \<Rightarrow> int option" where
  "int_from_value (VInt i) = Some i"
| "int_from_value v = None"

fun float3_from_value :: "'f cd_value \<Rightarrow> 'f float3 option" where
  "float3_from_value (VFloat3 p) = Some p"
| "float3_from_value v = None"

definition cpp_float :: "('f::{zero,plus,minus,ord}, 'f) CPPType" where
  "cpp_float = \<lparr>cd_type = CD_PROP_FLOAT, to_value = VFloat, from_value = float_from_value,
     value_init = 0\<rparr>"

definition cpp_int :: "(int, 'f) CPPType" where
  "cpp_int = \<lparr>cd_type = CD_PROP_INT32, to_value = VInt, from_value = int_from_value,
     value_init = 0\<rparr>"

definition cpp_float3 :: "('f::{zero,plus,minus,ord} float3, 'f) CPPType" where
  "cpp_float3 = \<lparr>cd_type = CD_PROP_FLOAT3, to_value = VFloat3, from_value = float3_from_value,
     value_init = float3 0 0 0\<rparr>"

text \<open>
  Modelled from the spec: \<open>Span\<close>, \<open>MutableSpan\<close> (\<open>BLI_span.hh\<close>) and \<open>VArray\<close>
  (\<open>BLI_virtual_array.hh\<close>) are not in src/. A span is a data pointer (\<open>None\<close> is
  \<open>nullptr\<close>) and a size; a virtual array is the spec's "read interface that looks like a
  per-point array but may be backed by either real storage or a single repeated default".
\<close>

record Span =
  span_data :: "addr option"
  span_size :: int

definition empty_span :: Span where
  "empty_span = \<lparr>span_data = None, span_size = 0\<rparr>"

datatype 'a VArray = ForSpan Span | ForSingle 'a int

fun get_if_single :: "'a VArray \<Rightarrow> 'a option" where
  "get_if_single (ForSingle v n) = Some v"
| "get_if_single (ForSpan sp) = None"

fun get_internal_span :: "'a VArray \<Rightarrow> Span" where
  "get_internal_span (ForSpan sp) = sp"
| "get_internal_span (ForSingle v n) = empty_span"

section \<open>The point cloud and the memory it lives in\<close>

type_synonym BVHTree = nat

type_synonym Material_ptr = "addr option"

record 'f PointCloudRuntime =
  bounds_cache :: "'f Bounds SharedCache"
  bounds_with_radius_cache :: "'f Bounds SharedCache"
  bvh_cache :: "BVHTree SharedCache"
  bake_materials :: "Material_ptr list option"

definition new_PointCloudRuntime :: "'f PointCloudRuntime" where
  "new_PointCloudRuntime = \<lparr>bounds_cache = Empty, bounds_with_radius_cache = Empty,
     bvh_cache = Empty, bake_materials = None\<rparr>"

record 'f PointCloud =
  flag :: int
  totpoint :: int
  pdata :: CustomData
  attribute_storage :: CustomData
  mat :: "addr option"
  totcol :: int
  runtime :: "'f PointCloudRuntime"
  batch_cache :: "addr option"

text \<open>
  Modelled from the spec: the allocator (\<open>MEM_guardedalloc.h\<close>) is not in src/. The memory
  holds what the spec says an entity owns, the arrays of the layers and the material
  array, and the point-cloud data-blocks; the allocator hands out the address at its limit
  and moves the limit up, so that an address it returns is one it has not returned before.
\<close>

record 'f memory =
  arrays :: "addr \<rightharpoonup> 'f cd_value list"
  mat_arrays :: "addr \<rightharpoonup> Material_ptr list"
  pointclouds :: "addr \<rightharpoonup> 'f PointCloud"
  mem_lim :: addr

definition MEM_alloc :: "'f memory \<Rightarrow> addr \<times> 'f memory" where
  "MEM_alloc m = (mem_lim m, m\<lparr>mem_lim := Suc (mem_lim m)\<rparr>)"

text \<open>Reading the elements a span views; a read outside the array or of another type faults.\<close>

fun those_values :: "('b \<Rightarrow> 'a option) \<Rightarrow> 'b list \<Rightarrow> 'a list option" where
  "those_values f [] = Some []"
| "those_values f (v # vs) =
     (case f v of None \<Rightarrow> None
      | Some x \<Rightarrow> (case those_values f vs of None \<Rightarrow> None | Some xs \<Rightarrow> Some (x # xs)))"

definition span_elems :: "'f memory \<Rightarrow> ('a, 'f) CPPType \<Rightarrow> Span \<Rightarrow> fault + 'a list" where
  "span_elems m T sp =
     (if span_size sp \<le> 0 then Inr []
      else case span_data sp of
        None \<Rightarrow> Inl InvalidRead
      | Some a \<Rightarrow>
          (case arrays m a of
             None \<Rightarrow> Inl InvalidRead
           | Some vs \<Rightarrow>
               if length vs < nat (span_size sp) then Inl InvalidRead
               else (case those_values (from_value T) (take (nat (span_size sp)) vs) of
                       None \<Rightarrow> Inl InvalidRead
                     | Some xs \<Rightarrow> Inr xs)))"

definition span_fill :: "'f memory \<Rightarrow> ('a, 'f) CPPType \<Rightarrow> Span \<Rightarrow> 'a \<Rightarrow> 'f memory" where
  "span_fill m T sp v =
     (case span_data sp of
        None \<Rightarrow> m
      | Some a \<Rightarrow>
          (case arrays m a of
             None \<Rightarrow> m
           | Some vs \<Rightarrow>
               m\<lparr>arrays := (arrays m)(a \<mapsto>
                    replicate (nat (span_size sp)) (to_value T v) @ drop (nat (span_size sp)) vs)\<rparr>))"

definition varray_elems :: "'f memory \<Rightarrow> ('a, 'f) CPPType \<Rightarrow> 'a VArray \<Rightarrow> fault + 'a list" where
  "varray_elems m T va =
     (case va of
        ForSpan sp \<Rightarrow> span_elems m T sp
      | ForSingle v n \<Rightarrow> Inr (replicate (nat n) v))"

subsection \<open>CustomData\<close>

text \<open>
  Modelled from the spec: the functions of \<open>BKE_customdata.hh\<close> that the source calls. A
  layer is found by its type and its name together: a layer "under the wrong element type"
  is "treated as layer does not exist for that type". A resize gives every layer the new
  number of elements, new elements holding the type's default ("all-default attribute
  values").
\<close>

definition CustomData_get_layer_named :: "CustomData \<Rightarrow> eCustomDataType \<Rightarrow> string \<Rightarrow> addr option" where
  "CustomData_get_layer_named data type name =
     map_option layer_data (find (\<lambda>l. layer_type l = type \<and> layer_name l = name) data)"

definition CustomData_get_layer_named_for_write ::
    "CustomData \<Rightarrow> eCustomDataType \<Rightarrow> string \<Rightarrow> int \<Rightarrow> addr option" where
  "CustomData_get_layer_named_for_write data type name totelem =
     CustomData_get_layer_named data type name"

text \<open>
  \<open>CustomData_add_layer_named\<close> allocates the array of a new layer and appends the layer.
  The contents of the fresh array are an argument (\<open>init\<close>): what the allocation type
  leaves there is decided by code that is not in src/.
\<close>

definition CustomData_add_layer_named ::
    "'f memory \<Rightarrow> CustomData \<Rightarrow> eCustomDataType \<Rightarrow> 'f cd_value list \<Rightarrow> string
      \<Rightarrow> 'f memory \<times> CustomData \<times> addr" where
  "CustomData_add_layer_named m data type init name =
     (let (a, m1) = MEM_alloc m
      in (m1\<lparr>arrays := (arrays m1)(a \<mapsto> init)\<rparr>,
          data @ [\<lparr>layer_type = type, layer_name = name, layer_data = a\<rparr>],
          a))"

definition resize_array :: "eCustomDataType \<Rightarrow> nat \<Rightarrow> ('f::{zero,plus,minus,ord}) cd_value list \<Rightarrow> 'f cd_value list" where
  "resize_array type n vs = take n vs @ replicate (n - length vs) (cd_default type)"

fun CustomData_realloc :: "('f::{zero,plus,minus,ord}) memory \<Rightarrow> CustomData \<Rightarrow> int \<Rightarrow> int \<Rightarrow> 'f memory" where
  "CustomData_realloc m [] old_size new_size = m"
| "CustomData_realloc m (l # ls) old_size new_size =
     CustomData_realloc
       (case arrays m (layer_data l) of
          None \<Rightarrow> m
        | Some vs \<Rightarrow>
            m\<lparr>arrays := (arrays m)(layer_data l \<mapsto> resize_array (layer_type l) (nat new_size) vs)\<rparr>)
       ls old_size new_size"

fun free_layers :: "'f memory \<Rightarrow> CustomDataLayer list \<Rightarrow> 'f memory" where
  "free_layers m [] = m"
| "free_layers m (l # ls) = free_layers (m\<lparr>arrays := (arrays m)(layer_data l := None)\<rparr>) ls"

definition CustomData_free_layer_named :: "'f memory \<Rightarrow> CustomData \<Rightarrow> string \<Rightarrow> 'f memory \<times> CustomData" where
  "CustomData_free_layer_named m data name =
     (free_layers m (filter (\<lambda>l. layer_name l = name) data),
      filter (\<lambda>l. layer_name l \<noteq> name) data)"

definition CustomData_reset :: CustomData where
  "CustomData_reset = []"

text \<open>
  Modelled from the spec: \<open>CustomData_init_from\<close> (\<open>BKE_customdata.hh\<close>) and the copy
  constructor of \<open>AttributeStorage\<close> (\<open>BKE_attribute_storage.hh\<close>) are the spec's "deep
  duplication of every layer (value semantics, not shared)". Every layer of the source
  gets a fresh array: \<open>CustomData_init_from\<close> copies the first \<open>totelem\<close> values of each
  array, the copy constructor copies each array whole. A layer without an array is copied
  to a layer without one.
\<close>

fun duplicate_layers ::
    "('f cd_value list \<Rightarrow> 'f cd_value list) \<Rightarrow> 'f memory \<Rightarrow> CustomDataLayer list
      \<Rightarrow> 'f memory \<times> CustomDataLayer list" where
  "duplicate_layers f m [] = (m, [])"
| "duplicate_layers f m (l # ls) =
     (let (a, m1) = MEM_alloc m;
          m2 = m1\<lparr>arrays := (arrays m1)(a := map_option f (arrays m (layer_data l)))\<rparr>;
          (m3, ls') = duplicate_layers f m2 ls
      in (m3, l\<lparr>layer_data := a\<rparr> # ls'))"

definition CustomData_init_from :: "'f memory \<Rightarrow> CustomData \<Rightarrow> int \<Rightarrow> 'f memory \<times> CustomData" where
  "CustomData_init_from m source totelem = duplicate_layers (take (nat totelem)) m source"

definition AttributeStorage_copy :: "'f memory \<Rightarrow> CustomData \<Rightarrow> 'f memory \<times> CustomData" where
  "AttributeStorage_copy m other = duplicate_layers (\<lambda>vs. vs) m other"

text \<open>A write of a whole array through a pointer to it.\<close>

definition write_array :: "'f memory \<Rightarrow> addr \<Rightarrow> 'f cd_value list \<Rightarrow> 'f memory" where
  "write_array m a vs = m\<lparr>arrays := (arrays m)(a \<mapsto> vs)\<rparr>"

text \<open>
  Modelled from the spec: \<open>MEM_dupallocN\<close> (\<open>MEM_guardedalloc.h\<close>) is not in src/. The
  material array is "owned" and a copy duplicates it: a null pointer stays null, a block
  is copied to a fresh address.
\<close>

definition MEM_dupallocN :: "'f memory \<Rightarrow> addr option \<Rightarrow> 'f memory \<times> addr option" where
  "MEM_dupallocN m vmemh =
     (case vmemh of
        None \<Rightarrow> (m, None)
      | Some a \<Rightarrow>
          (case mat_arrays m a of
             None \<Rightarrow> (m, None)
           | Some ms \<Rightarrow>
               (let (b, m1) = MEM_alloc m
                in (m1\<lparr>mat_arrays := (mat_arrays m1)(b \<mapsto> ms)\<rparr>, Some b))))"

section \<open>The PointCloud data-block\<close>

text \<open>
  A function of the source that takes \<open>PointCloud &\<close>, or is a method, takes the struct and
  returns the changed struct, with the memory where it reads or writes arrays. A function
  that returns \<open>PointCloud *\<close> allocates the data-block in \<open>pointclouds\<close> and returns its
  address.
\<close>

definition ATTR_POSITION :: string where
  "ATTR_POSITION = ''position''"

definition ATTR_RADIUS :: string where
  "ATTR_RADIUS = ''radius''"

text \<open>
  Modelled from the spec: \<open>MutableAttributeAccessor::add\<close> (\<open>BKE_attribute.hh\<close>) is not in
  src/. A layer is "created on first write to a previously-absent attribute name", with as
  many elements as the entity has points.
\<close>

definition attributes_add :: "('f::{zero,plus,minus,ord}) memory \<Rightarrow> 'f PointCloud \<Rightarrow> ('a, 'f) CPPType \<Rightarrow> string \<Rightarrow> 'f memory \<times> 'f PointCloud" where
  "attributes_add m pointcloud T name =
     (if name \<in> set (map layer_name (pdata pointcloud)) then (m, pointcloud)
      else let (m1, pdata1, a) =
                 CustomData_add_layer_named m (pdata pointcloud) (cd_type T)
                   (replicate (nat (totpoint pointcloud)) (cd_default (cd_type T))) name
           in (m1, pointcloud\<lparr>pdata := pdata1\<rparr>))"

text \<open>The struct after \<open>BKE_libblock_alloc\<close>: every byte is zero.\<close>

definition zero_PointCloud :: "'f PointCloud" where
  "zero_PointCloud = \<lparr>flag = 0, totpoint = 0, pdata = [], attribute_storage = [], mat = None,
     totcol = 0, runtime = new_PointCloudRuntime, batch_cache = None\<rparr>"

definition pointcloud_init_data :: "('f::{zero,plus,minus,ord}) memory \<Rightarrow> 'f PointCloud \<Rightarrow> 'f memory \<times> 'f PointCloud" where
  "pointcloud_init_data m pointcloud =
     (let pointcloud1 = pointcloud\<lparr>flag := 0, totpoint := 0, mat := None, totcol := 0,
                                   batch_cache := None\<rparr>;
          pointcloud2 = pointcloud1\<lparr>attribute_storage := []\<rparr>;
          pointcloud3 = pointcloud2\<lparr>runtime := new_PointCloudRuntime\<rparr>;
          pointcloud4 = pointcloud3\<lparr>pdata := CustomData_reset\<rparr>
      in attributes_add m pointcloud4 cpp_float3 ''position'')"

definition pointcloud_copy_data :: "'f memory \<Rightarrow> 'f PointCloud \<Rightarrow> 'f PointCloud \<Rightarrow> 'f memory \<times> 'f PointCloud" where
  "pointcloud_copy_data m pointcloud_dst pointcloud_src =
     (let (m1, mat_dst) = MEM_dupallocN m (mat pointcloud_src);
          (m2, pdata_dst) = CustomData_init_from m1 (pdata pointcloud_src) (totpoint pointcloud_dst);
          (m3, storage_dst) = AttributeStorage_copy m2 (attribute_storage pointcloud_src);
          runtime1 = new_PointCloudRuntime
            \<lparr>bounds_cache := bounds_cache (runtime pointcloud_src),
             bounds_with_radius_cache := bounds_with_radius_cache (runtime pointcloud_src),
             bvh_cache := bvh_cache (runtime pointcloud_src)\<rparr>;
          runtime2 = (case bake_materials (runtime pointcloud_src) of
                        None \<Rightarrow> runtime1
                      | Some ms \<Rightarrow> runtime1\<lparr>bake_materials := Some ms\<rparr>)
      in (m3, pointcloud_dst\<lparr>mat := mat_dst, pdata := pdata_dst, attribute_storage := storage_dst,
                runtime := runtime2, batch_cache := None\<rparr>))"

definition get_varray_attribute :: "('a, 'f) CPPType \<Rightarrow> 'f PointCloud \<Rightarrow> string \<Rightarrow> 'a \<Rightarrow> 'a VArray" where
  "get_varray_attribute T pointcloud name default_value =
     (case CustomData_get_layer_named (pdata pointcloud) (cd_type T) name of
        Some data \<Rightarrow> ForSpan \<lparr>span_data = Some data, span_size = totpoint pointcloud\<rparr>
      | None \<Rightarrow> ForSingle default_value (totpoint pointcloud))"

definition get_span_attribute :: "('a, 'f) CPPType \<Rightarrow> 'f PointCloud \<Rightarrow> string \<Rightarrow> Span" where
  "get_span_attribute T pointcloud name =
     (case CustomData_get_layer_named (pdata pointcloud) (cd_type T) name of
        None \<Rightarrow> empty_span
      | Some data \<Rightarrow> \<lparr>span_data = Some data, span_size = totpoint pointcloud\<rparr>)"

definition span_first :: "'f memory \<Rightarrow> ('a, 'f) CPPType \<Rightarrow> Span \<Rightarrow> fault + 'a" where
  "span_first m T sp =
     (case span_data sp of
        None \<Rightarrow> Inl InvalidRead
      | Some a \<Rightarrow>
          (case arrays m a of
             None \<Rightarrow> Inl InvalidRead
           | Some [] \<Rightarrow> Inl InvalidRead
           | Some (v # vs) \<Rightarrow>
               (case from_value T v of None \<Rightarrow> Inl InvalidRead | Some x \<Rightarrow> Inr x)))"

text \<open>
  \<open>cd_set_default type n\<close> is what a block of \<open>n\<close> elements allocated with \<open>CD_SET_DEFAULT\<close>
  holds; \<open>CD_SET_DEFAULT_contents\<close> is the filling with the type's default.
\<close>

definition CD_SET_DEFAULT_contents :: "eCustomDataType \<Rightarrow> nat \<Rightarrow> ('f::{zero,plus,minus,ord}) cd_value list" where
  "CD_SET_DEFAULT_contents type n = replicate n (cd_default type)"

definition get_mutable_attribute ::
    "(eCustomDataType \<Rightarrow> nat \<Rightarrow> 'f cd_value list) \<Rightarrow> ('a, 'f) CPPType \<Rightarrow> 'f memory \<Rightarrow> 'f PointCloud \<Rightarrow> string \<Rightarrow> 'a
      \<Rightarrow> fault + 'f memory \<times> 'f PointCloud \<times> Span" where
  "get_mutable_attribute cd_set_default T m pointcloud name default_value =
     (if totpoint pointcloud \<le> 0 then Inr (m, pointcloud, empty_span)
      else case CustomData_get_layer_named_for_write
                  (pdata pointcloud) (cd_type T) name (totpoint pointcloud) of
        Some data \<Rightarrow>
          Inr (m, pointcloud, \<lparr>span_data = Some data, span_size = totpoint pointcloud\<rparr>)
      | None \<Rightarrow>
          (let (m1, pdata1, data) =
                 CustomData_add_layer_named m (pdata pointcloud) (cd_type T)
                   (cd_set_default (cd_type T) (nat (totpoint pointcloud))) name;
               pointcloud1 = pointcloud\<lparr>pdata := pdata1\<rparr>;
               span = \<lparr>span_data = Some data, span_size = totpoint pointcloud\<rparr>
           in if totpoint pointcloud > 0 then
                (case span_first m1 T span of
                   Inl e \<Rightarrow> Inl e
                 | Inr first \<Rightarrow>
                     if first \<noteq> default_value
                     then Inr (span_fill m1 T span default_value, pointcloud1, span)
                     else Inr (m1, pointcloud1, span))
              else Inr (m1, pointcloud1, span)))"

definition positions :: "('f::{zero,plus,minus,ord}) PointCloud \<Rightarrow> Span" where
  "positions this = get_span_attribute cpp_float3 this ''position''"

definition positions_for_write ::
    "(eCustomDataType \<Rightarrow> nat \<Rightarrow> ('f::{zero,plus,minus,ord}) cd_value list) \<Rightarrow> 'f memory \<Rightarrow> 'f PointCloud
      \<Rightarrow> fault + 'f memory \<times> 'f PointCloud \<times> Span" where
  "positions_for_write cd_set_default m this =
     get_mutable_attribute cd_set_default cpp_float3 m this ''position'' (value_init cpp_float3)"

text \<open>
  \<open>radius\<close> and \<open>radius_for_write\<close> pass the literal \<open>0.01f\<close> as the default, and
  \<open>bounds_min_max\<close> calls \<open>radius\<close>: the value of the literal is their first argument.
\<close>

definition radius :: "'f::{zero,plus,minus,ord} \<Rightarrow> 'f PointCloud \<Rightarrow> 'f VArray" where
  "radius lit_0_01f this = get_varray_attribute cpp_float this ''radius'' lit_0_01f"

definition radius_for_write ::
    "'f::{zero,plus,minus,ord} \<Rightarrow> (eCustomDataType \<Rightarrow> nat \<Rightarrow> 'f cd_value list) \<Rightarrow> 'f memory
      \<Rightarrow> 'f PointCloud \<Rightarrow> fault + 'f memory \<times> 'f PointCloud \<times> Span" where
  "radius_for_write lit_0_01f cd_set_default m this =
     get_mutable_attribute cd_set_default cpp_float m this ''radius'' lit_0_01f"

text \<open>
  Modelled from the spec: \<open>BKE_libblock_alloc\<close> and \<open>BKE_libblock_init_empty\<close>
  (\<open>BKE_lib_id.hh\<close>) are not in src/. The first allocates a zeroed data-block; the second
  runs the \<open>init_data\<close> callback of the type, \<open>pointcloud_init_data\<close>, and with it an
  entity is "created empty (zero points, position layer present but empty)".
\<close>

definition BKE_libblock_alloc :: "'f memory \<Rightarrow> 'f memory \<times> addr" where
  "BKE_libblock_alloc m =
     (let (p, m1) = MEM_alloc m
      in (m1\<lparr>pointclouds := (pointclouds m1)(p \<mapsto> zero_PointCloud)\<rparr>, p))"

definition BKE_pointcloud_new_nomain :: "('f::{zero,plus,minus,ord}) memory \<Rightarrow> int \<Rightarrow> 'f memory \<times> addr" where
  "BKE_pointcloud_new_nomain m totpoint_arg =
     (let (m1, p) = BKE_libblock_alloc m;
          (m2, pointcloud) = pointcloud_init_data m1 zero_PointCloud;
          m3 = CustomData_realloc m2 (pdata pointcloud) 0 totpoint_arg;
          pointcloud1 = pointcloud\<lparr>totpoint := totpoint_arg\<rparr>
      in (m3\<lparr>pointclouds := (pointclouds m3)(p \<mapsto> pointcloud1)\<rparr>, p))"

function bounds_min_max ::
    "'f::{zero,plus,minus,ord} \<Rightarrow> 'f memory \<Rightarrow> 'f PointCloud \<Rightarrow> bool
      \<Rightarrow> fault + 'f Bounds option \<times> 'f PointCloud" where
  "bounds_min_max lit_0_01f m this use_radius =
     (if totpoint this = 0 then Inr (None, this)
      else if use_radius then
        (case ensure (bounds_with_radius_cache (runtime this))
                (\<lambda>s. case get_if_single (radius lit_0_01f s) of
                        Some radius_single \<Rightarrow>
                          (case bounds_min_max lit_0_01f m s False of
                             Inl e \<Rightarrow> Inl e
                           | Inr (None, s') \<Rightarrow> Inl NulloptDeref
                           | Inr (Some b, s') \<Rightarrow> Inr (pad b radius_single, s'))
                      | None \<Rightarrow>
                          (case span_elems m cpp_float3 (positions s) of
                             Inl e \<Rightarrow> Inl e
                           | Inr ps \<Rightarrow>
                               (case span_elems m cpp_float (get_internal_span (radius lit_0_01f s)) of
                                  Inl e \<Rightarrow> Inl e
                                | Inr rs \<Rightarrow>
                                    (case min_max_with_radii ps rs of
                                       None \<Rightarrow> Inl NulloptDeref
                                     | Some b \<Rightarrow> Inr (b, s)))))
                this of
           Inl e \<Rightarrow> Inl e
         | Inr (c, this1) \<Rightarrow>
             (case cache_data c of
                Inl e \<Rightarrow> Inl e
              | Inr b \<Rightarrow>
                  Inr (Some b,
                       this1\<lparr>runtime := (runtime this1)\<lparr>bounds_with_radius_cache := c\<rparr>\<rparr>)))
      else
        (case ensure (bounds_cache (runtime this))
                (\<lambda>s. case span_elems m cpp_float3 (positions s) of
                        Inl e \<Rightarrow> Inl e
                      | Inr ps \<Rightarrow>
                          (case min_max ps of
                             None \<Rightarrow> Inl NulloptDeref
                           | Some b \<Rightarrow> Inr (b, s)))
                this of
           Inl e \<Rightarrow> Inl e
         | Inr (c, this1) \<Rightarrow>
             (case cache_data c of
                Inl e \<Rightarrow> Inl e
              | Inr b \<Rightarrow>
                  Inr (Some b, this1\<lparr>runtime := (runtime this1)\<lparr>bounds_cache := c\<rparr>\<rparr>))))"
  by pat_completeness auto
termination
  by (relation "measure (\<lambda>(lit_0_01f, m, this, use_radius). if use_radius then 1 else 0)") auto

declare bounds_min_max.simps [simp del]

text \<open>
  Modelled from the spec: \<open>AttributeAccessor::lookup_or_default\<close> (\<open>BKE_attribute.hh\<close>) is
  not in src/. It is the spec's \<open>get_typed_read_with_default\<close>: "either the real backing
  layer (if present) or a conceptual array of length \<open>point_count\<close> that reads as
  \<open>default_value\<close> everywhere"; a layer of another element type counts as absent.
\<close>

datatype AttrDomain = Point

definition lookup_or_default :: "('a, 'f) CPPType \<Rightarrow> 'f PointCloud \<Rightarrow> string \<Rightarrow> AttrDomain \<Rightarrow> 'a \<Rightarrow> 'a VArray" where
  "lookup_or_default T this name domain default_value =
     get_varray_attribute T this name default_value"

text \<open>\<open>MAXMAT\<close> (\<open>DNA_material_types.h\<close>) is not in src/: it is the first argument.\<close>

definition material_index_max :: "int \<Rightarrow> 'f memory \<Rightarrow> 'f PointCloud \<Rightarrow> fault + int option" where
  "material_index_max MAXMAT m this =
     (if totpoint this = 0 then Inr None
      else case varray_elems m cpp_int (lookup_or_default cpp_int this ''material_index'' Point 0) of
        Inl e \<Rightarrow> Inl e
      | Inr xs \<Rightarrow>
          (case bounds_max xs of
             None \<Rightarrow> Inr None
           | Some max_material_index \<Rightarrow> Inr (Some (std_clamp max_material_index 0 MAXMAT))))"

definition BKE_pointcloud_attribute_required :: "'f PointCloud \<Rightarrow> string \<Rightarrow> bool" where
  "BKE_pointcloud_attribute_required pointcloud name = (name = ATTR_POSITION)"

definition tag_positions_changed :: "'f PointCloud \<Rightarrow> 'f PointCloud" where
  "tag_positions_changed this =
     (let this1 = this\<lparr>runtime := (runtime this)\<lparr>bounds_cache := tag_dirty (bounds_cache (runtime this))\<rparr>\<rparr>;
          this2 = this1\<lparr>runtime := (runtime this1)\<lparr>bounds_with_radius_cache :=
                     tag_dirty (bounds_with_radius_cache (runtime this1))\<rparr>\<rparr>
      in this2\<lparr>runtime := (runtime this2)\<lparr>bvh_cache := tag_dirty (bvh_cache (runtime this2))\<rparr>\<rparr>)"

definition tag_radii_changed :: "'f PointCloud \<Rightarrow> 'f PointCloud" where
  "tag_radii_changed this =
     this\<lparr>runtime := (runtime this)\<lparr>bounds_with_radius_cache :=
            tag_dirty (bounds_with_radius_cache (runtime this))\<rparr>\<rparr>"

definition pointcloud_new_no_attributes :: "('f::{zero,plus,minus,ord}) memory \<Rightarrow> int \<Rightarrow> 'f memory \<times> addr" where
  "pointcloud_new_no_attributes m totpoint_arg =
     (let (m1, p) = BKE_pointcloud_new_nomain m 0
      in case pointclouds m1 p of
           None \<Rightarrow> (m1, p)
         | Some pointcloud \<Rightarrow>
             (let pointcloud1 = pointcloud\<lparr>totpoint := totpoint_arg\<rparr>;
                  (m2, pdata2) = CustomData_free_layer_named m1 (pdata pointcloud1) ''position''
              in (m2\<lparr>pointclouds := (pointclouds m2)(p \<mapsto> pointcloud1\<lparr>pdata := pdata2\<rparr>)\<rparr>, p)))"

text \<open>
  \<open>pointcloud_free_data\<close> releases what the data-block owns: the arrays of its layers and
  its material array. Modelled from the spec: \<open>BKE_id_free\<close> (\<open>BKE_lib_id.hh\<close>) is not
  in src/. It runs the \<open>free_data\<close> callback of the type ("destroyed releases
  \<open>attribute_storage\<close> and any cache payloads") and releases the data-block.
\<close>

definition pointcloud_free_data :: "'f memory \<Rightarrow> 'f PointCloud \<Rightarrow> 'f memory" where
  "pointcloud_free_data m pointcloud =
     (let m1 = free_layers m (pdata pointcloud);
          m2 = free_layers m1 (attribute_storage pointcloud)
      in case mat pointcloud of
           None \<Rightarrow> m2
         | Some a \<Rightarrow> m2\<lparr>mat_arrays := (mat_arrays m2)(a := None)\<rparr>)"

definition BKE_id_free :: "'f memory \<Rightarrow> addr \<Rightarrow> 'f memory" where
  "BKE_id_free m p =
     (case pointclouds m p of
        None \<Rightarrow> m
      | Some pointcloud \<Rightarrow>
          (let m1 = pointcloud_free_data m pointcloud
           in m1\<lparr>pointclouds := (pointclouds m1)(p := None)\<rparr>))"

section \<open>Evaluation\<close>

text \<open>
  Modelled from the spec: \<open>GeometrySet\<close> and \<open>PointCloudComponent\<close> (\<open>BKE_geometry_set.hh\<close>)
  are not in src/. The geometry container holds at most one point-cloud component; the
  component holds a pointer to a point cloud, which may be null, and says whether it owns
  it. Only the point-cloud payload of the container is modelled.
\<close>

datatype GeometryOwnershipType = Owned | Editable | ReadOnly

record PointCloudComponent =
  component_pointcloud :: "addr option"
  component_ownership :: GeometryOwnershipType

record GeometrySet =
  pointcloud_component :: "PointCloudComponent option"

definition GeometrySet_from_pointcloud :: "addr option \<Rightarrow> GeometryOwnershipType \<Rightarrow> GeometrySet" where
  "GeometrySet_from_pointcloud pointcloud ownership =
     (case pointcloud of
        None \<Rightarrow> \<lparr>pointcloud_component = None\<rparr>
      | Some p \<Rightarrow> \<lparr>pointcloud_component = Some \<lparr>component_pointcloud = Some p, component_ownership = ownership\<rparr>\<rparr>)"

definition has_pointcloud :: "GeometrySet \<Rightarrow> bool" where
  "has_pointcloud geometry_set =
     (case pointcloud_component geometry_set of
        None \<Rightarrow> False
      | Some component \<Rightarrow> component_pointcloud component \<noteq> None)"

definition component_release :: "PointCloudComponent \<Rightarrow> addr option \<times> PointCloudComponent" where
  "component_release component = (component_pointcloud component, component\<lparr>component_pointcloud := None\<rparr>)"

definition component_replace ::
    "PointCloudComponent \<Rightarrow> addr \<Rightarrow> GeometryOwnershipType \<Rightarrow> PointCloudComponent" where
  "component_replace component pointcloud ownership =
     component\<lparr>component_pointcloud := Some pointcloud, component_ownership := ownership\<rparr>"

text \<open>
  Modelled from the spec: the modifier stack (\<open>BKE_modifier.hh\<close>, \<open>DNA_modifier_types.h\<close>)
  and the evaluation mode of the dependency graph (\<open>DEG_depsgraph_query.hh\<close>) are not in
  src/. A stage is "an opaque function": the callbacks that look a modifier's type up, say
  whether it is enabled and list the object's modifiers are the fields of \<open>modifier_env\<close>,
  and a stage maps the memory and the geometry container to new ones. A stage's "transient
  error state" is cleared "on entry to the next evaluation run".
\<close>

datatype eEvaluationMode = DAG_EVAL_VIEWPORT | DAG_EVAL_RENDER

datatype ModifierMode = eModifierMode_Realtime | eModifierMode_Render

datatype ModifierApplyFlag = MOD_APPLY_RENDER | MOD_APPLY_USECACHE

type_synonym Scene = nat

record Depsgraph =
  mode :: eEvaluationMode

record ModifierData =
  md_type :: nat
  md_error :: "string option"

record ObjectRuntime =
  data_eval :: "addr option"
  is_data_eval_owned :: bool
  geometry_set_eval :: "GeometrySet option"

record Object =
  object_data :: "addr option"
  modifiers :: "ModifierData list"
  object_runtime :: ObjectRuntime

record ModifierEvalContext =
  ctx_depsgraph :: Depsgraph
  ctx_object :: Object
  ctx_flag :: ModifierApplyFlag

record 'f ModifierTypeInfo =
  modify_geometry_set ::
    "(ModifierData \<Rightarrow> ModifierEvalContext \<Rightarrow> 'f memory \<times> GeometrySet \<Rightarrow> 'f memory \<times> GeometrySet) option"

record 'f modifier_env =
  BKE_modifier_get_info :: "nat \<Rightarrow> 'f ModifierTypeInfo"
  BKE_modifier_is_enabled :: "Scene \<Rightarrow> ModifierData \<Rightarrow> ModifierMode \<Rightarrow> bool"
  BKE_modifiers_get_virtual_modifierlist :: "Object \<Rightarrow> ModifierData list"

definition DEG_get_mode :: "Depsgraph \<Rightarrow> eEvaluationMode" where
  "DEG_get_mode depsgraph = mode depsgraph"

definition BKE_modifiers_clear_errors :: "Object \<Rightarrow> Object" where
  "BKE_modifiers_clear_errors object =
     object\<lparr>modifiers := map (\<lambda>md. md\<lparr>md_error := None\<rparr>) (modifiers object)\<rparr>"

text \<open>
  Modelled from the spec: \<open>BKE_id_copy_ex\<close> (\<open>BKE_lib_id.hh\<close>) is not in src/. It allocates
  the copy, copies the struct of the source into it and runs the \<open>copy_data\<close> callback of
  the type, \<open>pointcloud_copy_data\<close>: "copy-constructed deep-duplicates
  \<open>attribute_storage\<close>".
\<close>

definition BKE_pointcloud_copy_for_eval :: "'f memory \<Rightarrow> 'f PointCloud \<Rightarrow> 'f memory \<times> addr" where
  "BKE_pointcloud_copy_for_eval m pointcloud_src =
     (let (p, m1) = MEM_alloc m;
          (m2, pointcloud_dst) = pointcloud_copy_data m1 pointcloud_src pointcloud_src
      in (m2\<lparr>pointclouds := (pointclouds m2)(p \<mapsto> pointcloud_dst)\<rparr>, p))"

fun evaluate_modifier_list ::
    "'f modifier_env \<Rightarrow> Scene \<Rightarrow> ModifierMode \<Rightarrow> ModifierEvalContext \<Rightarrow> ModifierData list
      \<Rightarrow> 'f memory \<times> GeometrySet \<Rightarrow> 'f memory \<times> GeometrySet" where
  "evaluate_modifier_list env scene required_mode mectx [] mg = mg"
| "evaluate_modifier_list env scene required_mode mectx (md # mds) mg =
     (let mti = BKE_modifier_get_info env (md_type md)
      in if \<not> BKE_modifier_is_enabled env scene md required_mode
         then evaluate_modifier_list env scene required_mode mectx mds mg
         else (case modify_geometry_set mti of
                 Some f \<Rightarrow> evaluate_modifier_list env scene required_mode mectx mds (f md mectx mg)
               | None \<Rightarrow> evaluate_modifier_list env scene required_mode mectx mds mg))"

definition pointcloud_evaluate_modifiers ::
    "'f modifier_env \<Rightarrow> Depsgraph \<Rightarrow> Scene \<Rightarrow> Object \<Rightarrow> 'f memory \<times> GeometrySet
      \<Rightarrow> Object \<times> 'f memory \<times> GeometrySet" where
  "pointcloud_evaluate_modifiers env depsgraph scene object mg =
     (let use_render = (DEG_get_mode depsgraph = DAG_EVAL_RENDER);
          required_mode = (if use_render then eModifierMode_Render else eModifierMode_Realtime);
          apply_flag = (if use_render then MOD_APPLY_RENDER else MOD_APPLY_USECACHE);
          mectx = \<lparr>ctx_depsgraph = depsgraph, ctx_object = object, ctx_flag = apply_flag\<rparr>;
          object1 = BKE_modifiers_clear_errors object;
          md = BKE_modifiers_get_virtual_modifierlist env object1
      in (object1, evaluate_modifier_list env scene required_mode mectx md mg))"

definition take_pointcloud_ownership_from_geometry_set ::
    "GeometrySet \<Rightarrow> addr option \<times> GeometrySet" where
  "take_pointcloud_ownership_from_geometry_set geometry_set =
     (case pointcloud_component geometry_set of
        None \<Rightarrow> (None, geometry_set)
      | Some pointcloud_component0 \<Rightarrow>
          (let (pointcloud, pointcloud_component1) = component_release pointcloud_component0
           in case pointcloud of
                Some p \<Rightarrow>
                  (Some p, geometry_set\<lparr>pointcloud_component :=
                             Some (component_replace pointcloud_component1 p ReadOnly)\<rparr>)
              | None \<Rightarrow> (None, geometry_set\<lparr>pointcloud_component := None\<rparr>)))"

text \<open>
  Modelled from the spec: \<open>BKE_object_free_derived_caches\<close> and
  \<open>BKE_object_eval_assign_data\<close> (\<open>BKE_object.hh\<close>) are not in src/. The first frees the
  result of the previous run when the object owns it; the second hands the caller "a
  reference plus an explicit not-owned flag", or "exclusive ownership and an owned flag".
\<close>

definition BKE_object_free_derived_caches :: "'f memory \<Rightarrow> Object \<Rightarrow> 'f memory \<times> Object" where
  "BKE_object_free_derived_caches m object =
     (let m1 = (case data_eval (object_runtime object) of
                  None \<Rightarrow> m
                | Some p \<Rightarrow> if is_data_eval_owned (object_runtime object) then BKE_id_free m p else m)
      in (m1, object\<lparr>object_runtime :=
                \<lparr>data_eval = None, is_data_eval_owned = False, geometry_set_eval = None\<rparr>\<rparr>))"

definition BKE_object_eval_assign_data :: "Object \<Rightarrow> addr option \<Rightarrow> bool \<Rightarrow> Object" where
  "BKE_object_eval_assign_data object data_eval_arg is_owned =
     object\<lparr>object_runtime := (object_runtime object)
       \<lparr>data_eval := data_eval_arg, is_data_eval_owned := is_owned\<rparr>\<rparr>"

definition BKE_pointcloud_data_update ::
    "('f::{zero,plus,minus,ord}) modifier_env \<Rightarrow> Depsgraph \<Rightarrow> Scene \<Rightarrow> 'f memory \<Rightarrow> Object \<Rightarrow> 'f memory \<times> Object" where
  "BKE_pointcloud_data_update env depsgraph scene m object =
     (let (m0, object0) = BKE_object_free_derived_caches m object;
          pointcloud = object_data object0;
          geometry_set = GeometrySet_from_pointcloud pointcloud ReadOnly;
          (object1, m1, geometry_set1) =
             pointcloud_evaluate_modifiers env depsgraph scene object0 (m0, geometry_set);
          (pointcloud_eval, geometry_set2) =
             take_pointcloud_ownership_from_geometry_set geometry_set1;
          (m2, pointcloud_eval1) =
             (case pointcloud_eval of
                None \<Rightarrow> (let (m', p) = BKE_pointcloud_new_nomain m1 0 in (m', Some p))
              | Some p \<Rightarrow> (m1, Some p));
          eval_is_owned = (pointcloud_eval1 \<noteq> pointcloud);
          object2 = BKE_object_eval_assign_data object1 pointcloud_eval1 eval_is_owned
      in (m2, object2\<lparr>object_runtime := (object_runtime object2)
                 \<lparr>geometry_set_eval := Some geometry_set2\<rparr>\<rparr>))"

section \<open>Concrete states\<close>

text \<open>
  The concrete states take the rationals for \<open>'f\<close>. \<open>binary32_0_01\<close> is the binary32
  value of the literal \<open>0.01f\<close>, 5368709 / 2^29. Every float of the states is a binary32
  value, and so is every sum and difference that the queries below take of them (of 0 and
  the literal, of 0 and 5, of 1 and 0): the rational result is the result of the binary32
  operation, which has nothing to round.
\<close>

definition binary32_0_01 :: rat where
  "binary32_0_01 = 5368709 / 536870912"

definition empty_memory :: "rat memory" where
  "empty_memory = \<lparr>arrays = Map.empty, mat_arrays = Map.empty, pointclouds = Map.empty, mem_lim = 0\<rparr>"

text \<open>
  One point at the origin and no radius layer; then the state after a caller has asked for
  the radius-padded bounds, asked for the radius layer with \<open>radius_for_write\<close>, written
  the radius 5 through the span it got, and not called \<open>tag_radii_changed\<close>.
\<close>

definition one_point_memory :: "rat memory" where
  "one_point_memory =
     \<lparr>arrays = [1 \<mapsto> [VFloat3 (float3 0 0 0)]], mat_arrays = Map.empty,
      pointclouds = Map.empty, mem_lim = 2\<rparr>"

definition one_point :: "rat PointCloud" where
  "one_point =
     \<lparr>flag = 0, totpoint = 1,
      pdata = [\<lparr>layer_type = CD_PROP_FLOAT3, layer_name = ''position'', layer_data = 1\<rparr>],
      attribute_storage = [], mat = None, totcol = 0,
      runtime = new_PointCloudRuntime, batch_cache = None\<rparr>"

definition untagged_radius_write :: "fault + rat memory \<times> rat PointCloud" where
  "untagged_radius_write =
     (case bounds_min_max binary32_0_01 one_point_memory one_point True of
        Inl e \<Rightarrow> Inl e
      | Inr (b, pointcloud1) \<Rightarrow>
          (case radius_for_write binary32_0_01 CD_SET_DEFAULT_contents one_point_memory pointcloud1 of
             Inl e \<Rightarrow> Inl e
           | Inr (m1, pointcloud2, radii) \<Rightarrow>
               Inr (span_fill m1 cpp_float radii 5, pointcloud2)))"

definition stale_memory :: "rat memory" where
  "stale_memory =
     \<lparr>arrays = [1 \<mapsto> [VFloat3 (float3 0 0 0)], 2 \<mapsto> [VFloat 5]],
      mat_arrays = Map.empty, pointclouds = Map.empty, mem_lim = 3\<rparr>"

definition stale_pointcloud :: "rat PointCloud" where
  "stale_pointcloud =
     \<lparr>flag = 0, totpoint = 1,
      pdata = [\<lparr>layer_type = CD_PROP_FLOAT3, layer_name = ''position'', layer_data = 1\<rparr>,
               \<lparr>layer_type = CD_PROP_FLOAT, layer_name = ''radius'', layer_data = 2\<rparr>],
      attribute_storage = [], mat = None, totcol = 0,
      runtime = \<lparr>bounds_cache = Valid \<lparr>bounds_min = float3 0 0 0, bounds_max = float3 0 0 0\<rparr>,
                 bounds_with_radius_cache =
                   Valid \<lparr>bounds_min = float3 (- binary32_0_01) (- binary32_0_01) (- binary32_0_01),
                          bounds_max = float3 binary32_0_01 binary32_0_01 binary32_0_01\<rparr>,
                 bvh_cache = Empty, bake_materials = None\<rparr>,
      batch_cache = None\<rparr>"

text \<open>
  One point whose plain-bounds cache holds the box of the origin, while the position array
  holds (1,1,1): the point has been moved, and \<open>tag_positions_changed\<close> has not been
  called.
\<close>

definition moved_point_memory :: "rat memory" where
  "moved_point_memory =
     \<lparr>arrays = [1 \<mapsto> [VFloat3 (float3 1 1 1)]], mat_arrays = Map.empty,
      pointclouds = Map.empty, mem_lim = 2\<rparr>"

definition moved_point :: "rat PointCloud" where
  "moved_point =
     \<lparr>flag = 0, totpoint = 1,
      pdata = [\<lparr>layer_type = CD_PROP_FLOAT3, layer_name = ''position'', layer_data = 1\<rparr>],
      attribute_storage = [], mat = None, totcol = 0,
      runtime = \<lparr>bounds_cache = Valid \<lparr>bounds_min = float3 0 0 0, bounds_max = float3 0 0 0\<rparr>,
                 bounds_with_radius_cache = Empty, bvh_cache = Empty, bake_materials = None\<rparr>,
      batch_cache = None\<rparr>"

text \<open>
  A point cloud with one point as \<open>pointcloud_new_no_attributes\<close> makes it, without any
  layer; and the same after a caller has asked for the radius layer with
  \<open>radius_for_write\<close>: it has a \<open>radius\<close> layer and no \<open>position\<close> layer.
\<close>

definition radius_without_position :: "fault + rat memory \<times> rat PointCloud" where
  "radius_without_position =
     (let (m1, p) = pointcloud_new_no_attributes empty_memory 1
      in case pointclouds m1 p of
           None \<Rightarrow> Inl InvalidRead
         | Some pointcloud \<Rightarrow>
             (case radius_for_write binary32_0_01 CD_SET_DEFAULT_contents m1 pointcloud of
                Inl e \<Rightarrow> Inl e
              | Inr (m2, pointcloud1, radii) \<Rightarrow> Inr (m2, pointcloud1)))"

definition no_attributes_pointcloud :: "rat PointCloud" where
  "no_attributes_pointcloud =
     \<lparr>flag = 0, totpoint = 1, pdata = [], attribute_storage = [], mat = None, totcol = 0,
      runtime = new_PointCloudRuntime, batch_cache = None\<rparr>"

definition no_position_pointcloud :: "rat PointCloud" where
  "no_position_pointcloud =
     \<lparr>flag = 0, totpoint = 1,
      pdata = [\<lparr>layer_type = CD_PROP_FLOAT, layer_name = ''radius'', layer_data = 2\<rparr>],
      attribute_storage = [], mat = None, totcol = 0,
      runtime = new_PointCloudRuntime, batch_cache = None\<rparr>"

definition no_position_memory :: "rat memory" where
  "no_position_memory =
     \<lparr>arrays = [2 \<mapsto> [VFloat binary32_0_01]], mat_arrays = Map.empty,
      pointclouds = [0 \<mapsto> no_attributes_pointcloud], mem_lim = 3\<rparr>"

text \<open>
  Two points, at (0,0,0) and (1,1,1), without a radius layer and with the radii 5 and 0.
\<close>

definition two_point_memory :: "rat memory" where
  "two_point_memory =
     \<lparr>arrays = [1 \<mapsto> [VFloat3 (float3 0 0 0), VFloat3 (float3 1 1 1)],
                2 \<mapsto> [VFloat 5, VFloat 0]],
      mat_arrays = Map.empty, pointclouds = Map.empty, mem_lim = 3\<rparr>"

definition two_points :: "rat PointCloud" where
  "two_points =
     \<lparr>flag = 0, totpoint = 2,
      pdata = [\<lparr>layer_type = CD_PROP_FLOAT3, layer_name = ''position'', layer_data = 1\<rparr>],
      attribute_storage = [], mat = None, totcol = 0,
      runtime = new_PointCloudRuntime, batch_cache = None\<rparr>"

definition two_points_radii :: "rat PointCloud" where
  "two_points_radii =
     \<lparr>flag = 0, totpoint = 2,
      pdata = [\<lparr>layer_type = CD_PROP_FLOAT3, layer_name = ''position'', layer_data = 1\<rparr>,
               \<lparr>layer_type = CD_PROP_FLOAT, layer_name = ''radius'', layer_data = 2\<rparr>],
      attribute_storage = [], mat = None, totcol = 0,
      runtime = new_PointCloudRuntime, batch_cache = None\<rparr>"

text \<open>
  Three points, without a \<open>material_index\<close> layer or with one of the two stored ones.
\<close>

definition three_point_memory :: "rat memory" where
  "three_point_memory =
     \<lparr>arrays = [1 \<mapsto> [VFloat3 (float3 0 0 0), VFloat3 (float3 1 1 1), VFloat3 (float3 2 2 2)],
                2 \<mapsto> [VInt 0, VInt 7, VInt 0],
                3 \<mapsto> [VInt 0, VInt 40000, VInt 0]],
      mat_arrays = Map.empty, pointclouds = Map.empty, mem_lim = 4\<rparr>"

definition three_points :: "CustomDataLayer list \<Rightarrow> rat PointCloud" where
  "three_points layers =
     \<lparr>flag = 0, totpoint = 3,
      pdata = \<lparr>layer_type = CD_PROP_FLOAT3, layer_name = ''position'', layer_data = 1\<rparr> # layers,
      attribute_storage = [], mat = None, totcol = 0,
      runtime = new_PointCloudRuntime, batch_cache = None\<rparr>"

definition material_index_layer :: "addr \<Rightarrow> CustomDataLayer" where
  "material_index_layer a =
     \<lparr>layer_type = CD_PROP_INT32, layer_name = ''material_index'', layer_data = a\<rparr>"

text \<open>
  An allocation whose fresh block already starts with the radius default \<open>0.01f\<close> and goes
  on with another value.
\<close>

definition first_is_default :: "eCustomDataType \<Rightarrow> nat \<Rightarrow> rat cd_value list" where
  "first_is_default type n = [VFloat binary32_0_01, VFloat 7]"

text \<open>
  An object whose data is the point cloud at address 0, a stage that discards the
  point-cloud component, and an environment in which every modifier is of that type and
  is enabled, or not, as the argument says.
\<close>

definition discard_stage ::
    "ModifierData \<Rightarrow> ModifierEvalContext \<Rightarrow> rat memory \<times> GeometrySet \<Rightarrow> rat memory \<times> GeometrySet" where
  "discard_stage md mectx mg = (fst mg, (snd mg)\<lparr>pointcloud_component := None\<rparr>)"

definition stage_env :: "bool \<Rightarrow> rat modifier_env" where
  "stage_env enabled =
     \<lparr>BKE_modifier_get_info = (\<lambda>type. \<lparr>modify_geometry_set = Some discard_stage\<rparr>),
      BKE_modifier_is_enabled = (\<lambda>scene md required_mode. enabled),
      BKE_modifiers_get_virtual_modifierlist = modifiers\<rparr>"

text \<open>
  A stage that replaces the point cloud of the container by a new one of one point, which
  the component owns; a stage that keeps the point cloud and makes the component
  \<open>Editable\<close>; and an environment of enabled modifiers in which the type of a modifier
  selects one of the three stages.
\<close>

definition replace_stage ::
    "ModifierData \<Rightarrow> ModifierEvalContext \<Rightarrow> rat memory \<times> GeometrySet \<Rightarrow> rat memory \<times> GeometrySet" where
  "replace_stage md mectx mg =
     (let (m1, q) = BKE_pointcloud_new_nomain (fst mg) 1
      in (m1, GeometrySet_from_pointcloud (Some q) Owned))"

definition retag_stage ::
    "ModifierData \<Rightarrow> ModifierEvalContext \<Rightarrow> rat memory \<times> GeometrySet \<Rightarrow> rat memory \<times> GeometrySet" where
  "retag_stage md mectx mg =
     (fst mg,
      (snd mg)\<lparr>pointcloud_component :=
        map_option (\<lambda>component. component\<lparr>component_ownership := Editable\<rparr>)
          (pointcloud_component (snd mg))\<rparr>)"

definition stages_env :: "rat modifier_env" where
  "stages_env =
     \<lparr>BKE_modifier_get_info =
        (\<lambda>type. \<lparr>modify_geometry_set =
           Some (if type = 1 then replace_stage else if type = 2 then retag_stage
                 else discard_stage)\<rparr>),
      BKE_modifier_is_enabled = (\<lambda>scene md required_mode. True),
      BKE_modifiers_get_virtual_modifierlist = modifiers\<rparr>"

definition replace_modifier :: ModifierData where
  "replace_modifier = \<lparr>md_type = 1, md_error = None\<rparr>"

definition retag_modifier :: ModifierData where
  "retag_modifier = \<lparr>md_type = 2, md_error = None\<rparr>"

definition object_memory :: "rat memory" where
  "object_memory = one_point_memory\<lparr>pointclouds := [0 \<mapsto> one_point]\<rparr>"

definition pointcloud_object :: "ModifierData list \<Rightarrow> Object" where
  "pointcloud_object mds =
     \<lparr>object_data = Some 0, modifiers = mds,
      object_runtime = \<lparr>data_eval = None, is_data_eval_owned = False, geometry_set_eval = None\<rparr>\<rparr>"

definition viewport :: Depsgraph where
  "viewport = \<lparr>mode = DAG_EVAL_VIEWPORT\<rparr>"

definition a_modifier :: ModifierData where
  "a_modifier = \<lparr>md_type = 0, md_error = None\<rparr>"

text \<open>
  A source for a copy: two layers, a material array with one material, and valid caches.
\<close>

definition copy_memory :: "rat memory" where
  "copy_memory =
     \<lparr>arrays = [1 \<mapsto> [VFloat3 (float3 0 0 0), VFloat3 (float3 1 1 1)],
                2 \<mapsto> [VFloat 5, VFloat 0]],
      mat_arrays = [3 \<mapsto> [Some 7]], pointclouds = Map.empty, mem_lim = 4\<rparr>"

definition copy_source :: "rat PointCloud" where
  "copy_source =
     \<lparr>flag = 0, totpoint = 2,
      pdata = [\<lparr>layer_type = CD_PROP_FLOAT3, layer_name = ''position'', layer_data = 1\<rparr>,
               \<lparr>layer_type = CD_PROP_FLOAT, layer_name = ''radius'', layer_data = 2\<rparr>],
      attribute_storage = [], mat = Some 3, totcol = 1,
      runtime = \<lparr>bounds_cache = Valid \<lparr>bounds_min = float3 0 0 0, bounds_max = float3 1 1 1\<rparr>,
                 bounds_with_radius_cache =
                   Valid \<lparr>bounds_min = float3 (- 5) (- 5) (- 5), bounds_max = float3 5 5 5\<rparr>,
                 bvh_cache = Valid 42, bake_materials = None\<rparr>,
      batch_cache = Some 9\<rparr>"

definition copy_result :: "rat memory \<times> rat PointCloud" where
  "copy_result = pointcloud_copy_data copy_memory copy_source copy_source"

section \<open>Allocation\<close>

lemma pointcloud_init_data_result:
  "pointcloud_init_data m pointcloud =
     (m\<lparr>mem_lim := Suc (mem_lim m), arrays := (arrays m)(mem_lim m \<mapsto> [])\<rparr>,
      pointcloud\<lparr>flag := 0, totpoint := 0, mat := None, totcol := 0, batch_cache := None,
        attribute_storage := [], runtime := new_PointCloudRuntime,
        pdata := [\<lparr>layer_type = CD_PROP_FLOAT3, layer_name = ''position'', layer_data = mem_lim m\<rparr>]\<rparr>)"
  by (simp add: pointcloud_init_data_def attributes_add_def CustomData_reset_def
      CustomData_add_layer_named_def MEM_alloc_def cpp_float3_def Let_def)

lemma BKE_pointcloud_new_nomain_result:
  "BKE_pointcloud_new_nomain m n =
     (m\<lparr>mem_lim := Suc (Suc (mem_lim m)),
        arrays := (arrays m)(Suc (mem_lim m) \<mapsto> replicate (nat n) (VFloat3 (float3 0 0 0))),
        pointclouds := (pointclouds m)(mem_lim m \<mapsto>
          zero_PointCloud\<lparr>totpoint := n,
            pdata := [\<lparr>layer_type = CD_PROP_FLOAT3, layer_name = ''position'',
                       layer_data = Suc (mem_lim m)\<rparr>]\<rparr>)\<rparr>,
      mem_lim m)"
  by (simp add: BKE_pointcloud_new_nomain_def BKE_libblock_alloc_def MEM_alloc_def
      pointcloud_init_data_result resize_array_def zero_PointCloud_def Let_def)

lemma pointcloud_new_no_attributes_result:
  "pointcloud_new_no_attributes m n =
     (m\<lparr>mem_lim := Suc (Suc (mem_lim m)),
        arrays := (arrays m)(Suc (mem_lim m) := None),
        pointclouds := (pointclouds m)(mem_lim m \<mapsto> zero_PointCloud\<lparr>totpoint := n\<rparr>)\<rparr>,
      mem_lim m)"
  by (simp add: pointcloud_new_no_attributes_def BKE_pointcloud_new_nomain_result
      CustomData_free_layer_named_def zero_PointCloud_def)

section \<open>Cache invalidation\<close>

lemma is_dirty_tag_dirty: "is_dirty (tag_dirty c)"
  by (cases c) (simp_all add: is_dirty_def)

text \<open>
  C2. \<open>tag_positions_changed\<close> tags the three caches (bounds, bounds with radius,
  acceleration structure) dirty and changes nothing else; \<open>tag_radii_changed\<close> tags the
  bounds-with-radius cache dirty and leaves the plain bounds cache, the acceleration
  structure cache and everything else as they were.
\<close>

theorem tag_changed_invalidates:
  "is_dirty (bounds_cache (runtime (tag_positions_changed this))) \<and>
   is_dirty (bounds_with_radius_cache (runtime (tag_positions_changed this))) \<and>
   is_dirty (bvh_cache (runtime (tag_positions_changed this))) \<and>
   tag_positions_changed this =
     this\<lparr>runtime := (runtime this)
       \<lparr>bounds_cache := tag_dirty (bounds_cache (runtime this)),
        bounds_with_radius_cache := tag_dirty (bounds_with_radius_cache (runtime this)),
        bvh_cache := tag_dirty (bvh_cache (runtime this))\<rparr>\<rparr> \<and>
   is_dirty (bounds_with_radius_cache (runtime (tag_radii_changed this))) \<and>
   bounds_cache (runtime (tag_radii_changed this)) = bounds_cache (runtime this) \<and>
   bvh_cache (runtime (tag_radii_changed this)) = bvh_cache (runtime this) \<and>
   tag_radii_changed this =
     this\<lparr>runtime := (runtime this)
       \<lparr>bounds_with_radius_cache := tag_dirty (bounds_with_radius_cache (runtime this))\<rparr>\<rparr>"
  by (simp add: tag_positions_changed_def tag_radii_changed_def Let_def is_dirty_tag_dirty)

section \<open>Bounds\<close>

text \<open>
  C3. On a point cloud with no points the bounds query returns no value, for the plain and
  for the radius-padded variant alike; it does not fault, and it leaves the point cloud,
  its caches included, as it was: nothing is computed.
\<close>

theorem bounds_of_empty_pointcloud:
  "totpoint this = 0 \<Longrightarrow> bounds_min_max lit_0_01f m this use_radius = Inr (None, this)"
  by (simp add: bounds_min_max.simps)

theorem bounds_of_empty_pointcloud_witness:
  "totpoint (zero_PointCloud :: rat PointCloud) = 0 \<and>
   bounds_min_max binary32_0_01 empty_memory zero_PointCloud True = Inr (None, zero_PointCloud) \<and>
   bounds_min_max binary32_0_01 empty_memory zero_PointCloud False = Inr (None, zero_PointCloud)"
proof -
  have z: "totpoint (zero_PointCloud :: rat PointCloud) = 0"
    by (simp add: zero_PointCloud_def)
  show ?thesis
    using z bounds_of_empty_pointcloud [OF z, of binary32_0_01 empty_memory True]
      bounds_of_empty_pointcloud [OF z, of binary32_0_01 empty_memory False]
    by simp
qed

lemma those_values_length: "those_values f vs = Some xs \<Longrightarrow> length xs = length vs"
  by (induction vs arbitrary: xs) (auto split: option.splits)

lemma span_elems_length: "span_elems m T sp = Inr xs \<Longrightarrow> length xs = nat (span_size sp)"
  by (auto simp: span_elems_def dest!: those_values_length split: if_splits option.splits)

lemma ensure_not_cached:
  "\<not> is_cached c \<Longrightarrow>
   ensure c compute_fn s =
     (case compute_fn s of Inl e \<Rightarrow> Inl e | Inr (v, s') \<Rightarrow> Inr (Valid v, s'))"
  by (cases c) simp_all

lemma bounds_min_max_cached:
  assumes "totpoint this \<noteq> 0" and "bounds_with_radius_cache (runtime this) = Valid v"
  shows "bounds_min_max lit_0_01f m this True = Inr (Some v, this)"
proof -
  have "this\<lparr>runtime := (runtime this)\<lparr>bounds_with_radius_cache := Valid v\<rparr>\<rparr> = this"
    using assms(2) by (cases this, cases "runtime this") auto
  then show ?thesis
    using assms by (subst bounds_min_max.simps) simp
qed

lemma bounds_min_max_plain_cached:
  assumes "totpoint this \<noteq> 0" and "bounds_cache (runtime this) = Valid v"
  shows "bounds_min_max lit_0_01f m this False = Inr (Some v, this)"
proof -
  have "this\<lparr>runtime := (runtime this)\<lparr>bounds_cache := Valid v\<rparr>\<rparr> = this"
    using assms(2) by (cases this, cases "runtime this") auto
  then show ?thesis
    using assms by (subst bounds_min_max.simps) simp
qed

lemma bounds_without_position_fault:
  assumes "totpoint this \<noteq> 0" and "\<not> is_cached (bounds_cache (runtime this))"
    and "CustomData_get_layer_named (pdata this) CD_PROP_FLOAT3 ''position'' = None"
  shows "bounds_min_max lit_0_01f m this False = Inl NulloptDeref"
  using assms
  by (subst bounds_min_max.simps)
     (simp add: ensure_not_cached positions_def get_span_attribute_def cpp_float3_def
        span_elems_def empty_span_def)

lemma radius_single:
  "CustomData_get_layer_named (pdata this) CD_PROP_FLOAT ''radius'' = None \<Longrightarrow>
   radius lit_0_01f this = ForSingle lit_0_01f (totpoint this)"
  by (simp add: radius_def get_varray_attribute_def cpp_float_def)

lemma radius_span:
  "CustomData_get_layer_named (pdata this) CD_PROP_FLOAT ''radius'' = Some a \<Longrightarrow>
   radius lit_0_01f this = ForSpan \<lparr>span_data = Some a, span_size = totpoint this\<rparr>"
  by (simp add: radius_def get_varray_attribute_def cpp_float_def)

lemma bounds_min_max_single:
  assumes "totpoint this \<noteq> 0" and "\<not> is_cached (bounds_with_radius_cache (runtime this))"
    and "CustomData_get_layer_named (pdata this) CD_PROP_FLOAT ''radius'' = None"
  shows "bounds_min_max lit_0_01f m this True =
           (case bounds_min_max lit_0_01f m this False of
              Inl e \<Rightarrow> Inl e
            | Inr (None, this1) \<Rightarrow> Inl NulloptDeref
            | Inr (Some b, this1) \<Rightarrow>
                Inr (Some (pad b lit_0_01f),
                     this1\<lparr>runtime := (runtime this1)
                       \<lparr>bounds_with_radius_cache := Valid (pad b lit_0_01f)\<rparr>\<rparr>))"
  using assms(1,2) radius_single [OF assms(3), of lit_0_01f]
  by (subst bounds_min_max.simps)
     (simp add: ensure_not_cached split: sum.splits option.splits prod.splits)

lemma bounds_min_max_span:
  assumes "totpoint this \<noteq> 0" and "\<not> is_cached (bounds_with_radius_cache (runtime this))"
    and "CustomData_get_layer_named (pdata this) CD_PROP_FLOAT ''radius'' = Some a"
  shows "bounds_min_max lit_0_01f m this True =
           (case span_elems m cpp_float3 (positions this) of
              Inl e \<Rightarrow> Inl e
            | Inr ps \<Rightarrow>
                (case span_elems m cpp_float \<lparr>span_data = Some a, span_size = totpoint this\<rparr> of
                   Inl e \<Rightarrow> Inl e
                 | Inr rs \<Rightarrow>
                     (case min_max_with_radii ps rs of
                        None \<Rightarrow> Inl NulloptDeref
                      | Some b \<Rightarrow>
                          Inr (Some b,
                               this\<lparr>runtime := (runtime this)
                                 \<lparr>bounds_with_radius_cache := Valid b\<rparr>\<rparr>))))"
  using assms(1,2) radius_span [OF assms(3), of lit_0_01f]
  by (subst bounds_min_max.simps)
     (simp add: ensure_not_cached split: sum.splits option.splits prod.splits)

lemma min_max_with_radii_nonempty:
  "ps \<noteq> [] \<Longrightarrow> rs \<noteq> [] \<Longrightarrow> \<exists>b. min_max_with_radii ps rs = Some b"
  by (cases ps; cases rs) simp_all

lemma bounds_min_max_span_value:
  assumes "0 < totpoint this" and "\<not> is_cached (bounds_with_radius_cache (runtime this))"
    and "CustomData_get_layer_named (pdata this) CD_PROP_FLOAT ''radius'' = Some a"
    and "CustomData_get_layer_named (pdata this) CD_PROP_FLOAT3 ''position'' = Some pa"
    and "span_elems m cpp_float3 (positions this) = Inr ps"
    and "span_elems m cpp_float \<lparr>span_data = Some a, span_size = totpoint this\<rparr> = Inr rs"
  shows "\<exists>b. min_max_with_radii ps rs = Some b \<and>
           bounds_min_max lit_0_01f m this True =
             Inr (Some b, this\<lparr>runtime := (runtime this)\<lparr>bounds_with_radius_cache := Valid b\<rparr>\<rparr>)"
proof -
  have "positions this = \<lparr>span_data = Some pa, span_size = totpoint this\<rparr>"
    using assms(4) by (simp add: positions_def get_span_attribute_def cpp_float3_def)
  with span_elems_length [OF assms(5)] assms(1) have "ps \<noteq> []"
    by auto
  moreover from span_elems_length [OF assms(6)] assms(1) have "rs \<noteq> []"
    by auto
  ultimately obtain b where b: "min_max_with_radii ps rs = Some b"
    using min_max_with_radii_nonempty by blast
  have n: "totpoint this \<noteq> 0"
    using assms(1) by simp
  show ?thesis
    using b by (simp add: bounds_min_max_span [OF n assms(2,3)] assms(5,6))
qed

lemma bounds_min_max_span_without_position:
  assumes "totpoint this \<noteq> 0" and "\<not> is_cached (bounds_with_radius_cache (runtime this))"
    and "CustomData_get_layer_named (pdata this) CD_PROP_FLOAT ''radius'' = Some a"
    and "CustomData_get_layer_named (pdata this) CD_PROP_FLOAT3 ''position'' = None"
  shows "isl (bounds_min_max lit_0_01f m this True)"
proof -
  have "span_elems m cpp_float3 (positions this) = Inr []"
    using assms(4)
    by (simp add: positions_def get_span_attribute_def cpp_float3_def span_elems_def empty_span_def)
  then show ?thesis
    by (simp add: bounds_min_max_span [OF assms(1,2,3)] split: sum.splits)
qed

text \<open>
  C1, as the code has it. On a point cloud with at least one point, the radius-padded
  query returns the value of the bounds-with-radius cache unchanged when that cache is
  valid. When it is not valid, the query takes one of two paths.

  Without a \<open>radius\<close> layer the radius is the single value of the literal \<open>0.01f\<close>. The
  query makes the plain query, which goes through the plain-bounds cache: a valid
  plain-bounds cache is padded as it is, and no position is read. When the plain query
  gives a box, the result is that box padded by the literal on all sides, and it is stored
  in the cache; when the plain query faults, as it does without a \<open>position\<close> layer, this
  query faults.

  With a \<open>radius\<close> layer the query reads the positions and the radii of the layer. When
  the point cloud has a \<open>position\<close> layer and both arrays can be read, the result is the
  per-element reduction \<open>min_max_with_radii\<close> over them, and it is stored in the cache; when
  there is no \<open>position\<close> layer, or an array cannot be read, the query faults and nothing
  is stored.
\<close>

theorem bounds_with_radius_paths:
  assumes "totpoint this \<noteq> 0"
  shows
    "(\<forall>v. bounds_with_radius_cache (runtime this) = Valid v \<longrightarrow>
        bounds_min_max lit_0_01f m this True = Inr (Some v, this)) \<and>
     (\<not> is_cached (bounds_with_radius_cache (runtime this)) \<longrightarrow>
        (CustomData_get_layer_named (pdata this) CD_PROP_FLOAT ''radius'' = None \<longrightarrow>
           radius lit_0_01f this = ForSingle lit_0_01f (totpoint this) \<and>
           bounds_min_max lit_0_01f m this True =
             (case bounds_min_max lit_0_01f m this False of
                Inl e \<Rightarrow> Inl e
              | Inr (None, this1) \<Rightarrow> Inl NulloptDeref
              | Inr (Some b, this1) \<Rightarrow>
                  Inr (Some (pad b lit_0_01f),
                       this1\<lparr>runtime := (runtime this1)
                         \<lparr>bounds_with_radius_cache := Valid (pad b lit_0_01f)\<rparr>\<rparr>)) \<and>
           (\<forall>v. bounds_cache (runtime this) = Valid v \<longrightarrow>
              bounds_min_max lit_0_01f m this True =
                Inr (Some (pad v lit_0_01f),
                     this\<lparr>runtime := (runtime this)
                       \<lparr>bounds_with_radius_cache := Valid (pad v lit_0_01f)\<rparr>\<rparr>)) \<and>
           (\<not> is_cached (bounds_cache (runtime this)) \<and>
            CustomData_get_layer_named (pdata this) CD_PROP_FLOAT3 ''position'' = None \<longrightarrow>
              bounds_min_max lit_0_01f m this True = Inl NulloptDeref)) \<and>
        (\<forall>a. CustomData_get_layer_named (pdata this) CD_PROP_FLOAT ''radius'' = Some a \<longrightarrow>
           radius lit_0_01f this = ForSpan \<lparr>span_data = Some a, span_size = totpoint this\<rparr> \<and>
           bounds_min_max lit_0_01f m this True =
             (case span_elems m cpp_float3 (positions this) of
                Inl e \<Rightarrow> Inl e
              | Inr ps \<Rightarrow>
                  (case span_elems m cpp_float \<lparr>span_data = Some a, span_size = totpoint this\<rparr> of
                     Inl e \<Rightarrow> Inl e
                   | Inr rs \<Rightarrow>
                       (case min_max_with_radii ps rs of
                          None \<Rightarrow> Inl NulloptDeref
                        | Some b \<Rightarrow>
                            Inr (Some b,
                                 this\<lparr>runtime := (runtime this)
                                   \<lparr>bounds_with_radius_cache := Valid b\<rparr>\<rparr>)))) \<and>
           (\<forall>pa ps rs.
              0 < totpoint this \<and>
              CustomData_get_layer_named (pdata this) CD_PROP_FLOAT3 ''position'' = Some pa \<and>
              span_elems m cpp_float3 (positions this) = Inr ps \<and>
              span_elems m cpp_float \<lparr>span_data = Some a, span_size = totpoint this\<rparr> = Inr rs \<longrightarrow>
              (\<exists>b. min_max_with_radii ps rs = Some b \<and>
                 bounds_min_max lit_0_01f m this True =
                   Inr (Some b,
                        this\<lparr>runtime := (runtime this)
                          \<lparr>bounds_with_radius_cache := Valid b\<rparr>\<rparr>))) \<and>
           (CustomData_get_layer_named (pdata this) CD_PROP_FLOAT3 ''position'' = None \<longrightarrow>
              isl (bounds_min_max lit_0_01f m this True))))"
proof (intro conjI allI impI)
  fix v
  assume "bounds_with_radius_cache (runtime this) = Valid v"
  then show "bounds_min_max lit_0_01f m this True = Inr (Some v, this)"
    using assms by (rule bounds_min_max_cached [rotated])
next
  assume "CustomData_get_layer_named (pdata this) CD_PROP_FLOAT ''radius'' = None"
  then show "radius lit_0_01f this = ForSingle lit_0_01f (totpoint this)"
    by (rule radius_single)
next
  assume n: "\<not> is_cached (bounds_with_radius_cache (runtime this))"
    and r: "CustomData_get_layer_named (pdata this) CD_PROP_FLOAT ''radius'' = None"
  show "bounds_min_max lit_0_01f m this True =
          (case bounds_min_max lit_0_01f m this False of
             Inl e \<Rightarrow> Inl e
           | Inr (None, this1) \<Rightarrow> Inl NulloptDeref
           | Inr (Some b, this1) \<Rightarrow>
               Inr (Some (pad b lit_0_01f),
                    this1\<lparr>runtime := (runtime this1)
                      \<lparr>bounds_with_radius_cache := Valid (pad b lit_0_01f)\<rparr>\<rparr>))"
    using assms n r by (rule bounds_min_max_single)
next
  fix v
  assume n: "\<not> is_cached (bounds_with_radius_cache (runtime this))"
    and r: "CustomData_get_layer_named (pdata this) CD_PROP_FLOAT ''radius'' = None"
    and c: "bounds_cache (runtime this) = Valid v"
  show "bounds_min_max lit_0_01f m this True =
          Inr (Some (pad v lit_0_01f),
               this\<lparr>runtime := (runtime this)
                 \<lparr>bounds_with_radius_cache := Valid (pad v lit_0_01f)\<rparr>\<rparr>)"
    by (simp add: bounds_min_max_single [OF assms n r] bounds_min_max_plain_cached [OF assms c])
next
  assume n: "\<not> is_cached (bounds_with_radius_cache (runtime this))"
    and r: "CustomData_get_layer_named (pdata this) CD_PROP_FLOAT ''radius'' = None"
    and p: "\<not> is_cached (bounds_cache (runtime this)) \<and>
            CustomData_get_layer_named (pdata this) CD_PROP_FLOAT3 ''position'' = None"
  show "bounds_min_max lit_0_01f m this True = Inl NulloptDeref"
    using p
    by (simp add: bounds_min_max_single [OF assms n r] bounds_without_position_fault [OF assms])
next
  fix a
  assume "CustomData_get_layer_named (pdata this) CD_PROP_FLOAT ''radius'' = Some a"
  then show "radius lit_0_01f this = ForSpan \<lparr>span_data = Some a, span_size = totpoint this\<rparr>"
    by (rule radius_span)
next
  fix a
  assume n: "\<not> is_cached (bounds_with_radius_cache (runtime this))"
    and r: "CustomData_get_layer_named (pdata this) CD_PROP_FLOAT ''radius'' = Some a"
  show "bounds_min_max lit_0_01f m this True =
          (case span_elems m cpp_float3 (positions this) of
             Inl e \<Rightarrow> Inl e
           | Inr ps \<Rightarrow>
               (case span_elems m cpp_float \<lparr>span_data = Some a, span_size = totpoint this\<rparr> of
                  Inl e \<Rightarrow> Inl e
                | Inr rs \<Rightarrow>
                    (case min_max_with_radii ps rs of
                       None \<Rightarrow> Inl NulloptDeref
                     | Some b \<Rightarrow>
                         Inr (Some b,
                              this\<lparr>runtime := (runtime this)
                                \<lparr>bounds_with_radius_cache := Valid b\<rparr>\<rparr>))))"
    using assms n r by (rule bounds_min_max_span)
next
  fix a pa ps rs
  assume n: "\<not> is_cached (bounds_with_radius_cache (runtime this))"
    and r: "CustomData_get_layer_named (pdata this) CD_PROP_FLOAT ''radius'' = Some a"
    and h: "0 < totpoint this \<and>
      CustomData_get_layer_named (pdata this) CD_PROP_FLOAT3 ''position'' = Some pa \<and>
      span_elems m cpp_float3 (positions this) = Inr ps \<and>
      span_elems m cpp_float \<lparr>span_data = Some a, span_size = totpoint this\<rparr> = Inr rs"
  show "\<exists>b. min_max_with_radii ps rs = Some b \<and>
          bounds_min_max lit_0_01f m this True =
            Inr (Some b,
                 this\<lparr>runtime := (runtime this)\<lparr>bounds_with_radius_cache := Valid b\<rparr>\<rparr>)"
    using h by (intro bounds_min_max_span_value [OF _ n r]) simp_all
next
  fix a
  assume n: "\<not> is_cached (bounds_with_radius_cache (runtime this))"
    and r: "CustomData_get_layer_named (pdata this) CD_PROP_FLOAT ''radius'' = Some a"
    and p: "CustomData_get_layer_named (pdata this) CD_PROP_FLOAT3 ''position'' = None"
  show "isl (bounds_min_max lit_0_01f m this True)"
    using assms n r p by (rule bounds_min_max_span_without_position)
qed

lemma one_point_facts:
  "totpoint one_point \<noteq> 0 \<and>
   \<not> is_cached (bounds_with_radius_cache (runtime one_point)) \<and>
   CustomData_get_layer_named (pdata one_point) CD_PROP_FLOAT ''radius'' = None \<and>
   bounds_min_max binary32_0_01 one_point_memory one_point False =
     Inr (Some \<lparr>bounds_min = float3 0 0 0, bounds_max = float3 0 0 0\<rparr>,
          one_point\<lparr>runtime := (runtime one_point)
            \<lparr>bounds_cache := Valid \<lparr>bounds_min = float3 0 0 0, bounds_max = float3 0 0 0\<rparr>\<rparr>\<rparr>)"
  by (simp add: one_point_def one_point_memory_def new_PointCloudRuntime_def
      CustomData_get_layer_named_def bounds_min_max.simps positions_def get_span_attribute_def
      cpp_float3_def span_elems_def min_max_step_def)

lemma two_points_radii_facts:
  "0 < totpoint two_points_radii \<and>
   \<not> is_cached (bounds_with_radius_cache (runtime two_points_radii)) \<and>
   CustomData_get_layer_named (pdata two_points_radii) CD_PROP_FLOAT ''radius'' = Some 2 \<and>
   CustomData_get_layer_named (pdata two_points_radii) CD_PROP_FLOAT3 ''position'' = Some 1 \<and>
   span_elems two_point_memory cpp_float3 (positions two_points_radii) =
     Inr [float3 0 0 0, float3 1 1 1] \<and>
   span_elems two_point_memory cpp_float \<lparr>span_data = Some 2, span_size = totpoint two_points_radii\<rparr> =
     Inr [5, 0] \<and>
   min_max_with_radii [float3 0 0 0, float3 1 1 1] [5, 0::rat] =
     Some \<lparr>bounds_min = float3 (- 5) (- 5) (- 5), bounds_max = float3 5 5 5\<rparr>"
  by (simp add: two_points_radii_def two_point_memory_def new_PointCloudRuntime_def
      CustomData_get_layer_named_def positions_def get_span_attribute_def
      cpp_float3_def cpp_float_def span_elems_def min_max_with_radii_step_def)

lemma no_position_facts:
  "totpoint no_position_pointcloud \<noteq> 0 \<and>
   \<not> is_cached (bounds_with_radius_cache (runtime no_position_pointcloud)) \<and>
   CustomData_get_layer_named (pdata no_position_pointcloud) CD_PROP_FLOAT ''radius'' = Some 2 \<and>
   CustomData_get_layer_named (pdata no_position_pointcloud) CD_PROP_FLOAT3 ''position'' = None"
  by (simp add: no_position_pointcloud_def zero_PointCloud_def new_PointCloudRuntime_def
      CustomData_get_layer_named_def)

lemma moved_point_facts:
  "totpoint moved_point \<noteq> 0 \<and>
   \<not> is_cached (bounds_with_radius_cache (runtime moved_point)) \<and>
   CustomData_get_layer_named (pdata moved_point) CD_PROP_FLOAT ''radius'' = None \<and>
   bounds_cache (runtime moved_point) =
     Valid \<lparr>bounds_min = float3 0 0 0, bounds_max = float3 0 0 0\<rparr> \<and>
   span_elems moved_point_memory cpp_float3 (positions moved_point) = Inr [float3 1 1 1]"
  by (simp add: moved_point_def moved_point_memory_def CustomData_get_layer_named_def
      positions_def get_span_attribute_def cpp_float3_def span_elems_def)

lemma no_attributes_facts:
  "totpoint no_attributes_pointcloud \<noteq> 0 \<and>
   \<not> is_cached (bounds_with_radius_cache (runtime no_attributes_pointcloud)) \<and>
   \<not> is_cached (bounds_cache (runtime no_attributes_pointcloud)) \<and>
   CustomData_get_layer_named (pdata no_attributes_pointcloud) CD_PROP_FLOAT ''radius'' = None \<and>
   CustomData_get_layer_named (pdata no_attributes_pointcloud) CD_PROP_FLOAT3 ''position'' = None"
  by (simp add: no_attributes_pointcloud_def new_PointCloudRuntime_def
      CustomData_get_layer_named_def)

lemma no_position_query:
  "bounds_min_max binary32_0_01 no_position_memory no_position_pointcloud True = Inl NulloptDeref"
proof -
  have "span_elems no_position_memory cpp_float3 (positions no_position_pointcloud) = Inr [] \<and>
      span_elems no_position_memory cpp_float
        \<lparr>span_data = Some 2, span_size = totpoint no_position_pointcloud\<rparr> = Inr [binary32_0_01]"
    by (simp add: no_position_pointcloud_def no_position_memory_def zero_PointCloud_def
        positions_def get_span_attribute_def CustomData_get_layer_named_def cpp_float3_def
        cpp_float_def span_elems_def empty_span_def)
  then show ?thesis
    using no_position_facts
    by (simp add: bounds_min_max_span [of no_position_pointcloud 2])
qed

theorem bounds_with_radius_paths_witness:
  "totpoint one_point \<noteq> 0 \<and>
   \<not> is_cached (bounds_with_radius_cache (runtime one_point)) \<and>
   CustomData_get_layer_named (pdata one_point) CD_PROP_FLOAT ''radius'' = None \<and>
   bounds_min_max binary32_0_01 one_point_memory one_point True =
     Inr (Some \<lparr>bounds_min = float3 (- binary32_0_01) (- binary32_0_01) (- binary32_0_01),
                bounds_max = float3 binary32_0_01 binary32_0_01 binary32_0_01\<rparr>,
          one_point\<lparr>runtime := (runtime one_point)
            \<lparr>bounds_cache := Valid \<lparr>bounds_min = float3 0 0 0, bounds_max = float3 0 0 0\<rparr>,
             bounds_with_radius_cache :=
               Valid \<lparr>bounds_min = float3 (- binary32_0_01) (- binary32_0_01) (- binary32_0_01),
                      bounds_max = float3 binary32_0_01 binary32_0_01 binary32_0_01\<rparr>\<rparr>\<rparr>) \<and>
   0 < totpoint two_points_radii \<and>
   \<not> is_cached (bounds_with_radius_cache (runtime two_points_radii)) \<and>
   CustomData_get_layer_named (pdata two_points_radii) CD_PROP_FLOAT ''radius'' = Some 2 \<and>
   CustomData_get_layer_named (pdata two_points_radii) CD_PROP_FLOAT3 ''position'' = Some 1 \<and>
   bounds_min_max binary32_0_01 two_point_memory two_points_radii True =
     Inr (Some \<lparr>bounds_min = float3 (- 5) (- 5) (- 5), bounds_max = float3 5 5 5\<rparr>,
          two_points_radii\<lparr>runtime := (runtime two_points_radii)
            \<lparr>bounds_with_radius_cache :=
               Valid \<lparr>bounds_min = float3 (- 5) (- 5) (- 5), bounds_max = float3 5 5 5\<rparr>\<rparr>\<rparr>) \<and>
   totpoint stale_pointcloud \<noteq> 0 \<and>
   bounds_with_radius_cache (runtime stale_pointcloud) =
     Valid \<lparr>bounds_min = float3 (- binary32_0_01) (- binary32_0_01) (- binary32_0_01),
            bounds_max = float3 binary32_0_01 binary32_0_01 binary32_0_01\<rparr> \<and>
   bounds_min_max binary32_0_01 stale_memory stale_pointcloud True =
     Inr (Some \<lparr>bounds_min = float3 (- binary32_0_01) (- binary32_0_01) (- binary32_0_01),
                bounds_max = float3 binary32_0_01 binary32_0_01 binary32_0_01\<rparr>, stale_pointcloud) \<and>
   totpoint no_position_pointcloud \<noteq> 0 \<and>
   \<not> is_cached (bounds_with_radius_cache (runtime no_position_pointcloud)) \<and>
   CustomData_get_layer_named (pdata no_position_pointcloud) CD_PROP_FLOAT ''radius'' = Some 2 \<and>
   CustomData_get_layer_named (pdata no_position_pointcloud) CD_PROP_FLOAT3 ''position'' = None \<and>
   isl (bounds_min_max binary32_0_01 no_position_memory no_position_pointcloud True) \<and>
   totpoint moved_point \<noteq> 0 \<and>
   \<not> is_cached (bounds_with_radius_cache (runtime moved_point)) \<and>
   CustomData_get_layer_named (pdata moved_point) CD_PROP_FLOAT ''radius'' = None \<and>
   bounds_cache (runtime moved_point) =
     Valid \<lparr>bounds_min = float3 0 0 0, bounds_max = float3 0 0 0\<rparr> \<and>
   span_elems moved_point_memory cpp_float3 (positions moved_point) = Inr [float3 1 1 1] \<and>
   bounds_min_max binary32_0_01 moved_point_memory moved_point True =
     Inr (Some \<lparr>bounds_min = float3 (- binary32_0_01) (- binary32_0_01) (- binary32_0_01),
                bounds_max = float3 binary32_0_01 binary32_0_01 binary32_0_01\<rparr>,
          moved_point\<lparr>runtime := (runtime moved_point)
            \<lparr>bounds_with_radius_cache :=
               Valid \<lparr>bounds_min = float3 (- binary32_0_01) (- binary32_0_01) (- binary32_0_01),
                      bounds_max = float3 binary32_0_01 binary32_0_01 binary32_0_01\<rparr>\<rparr>\<rparr>) \<and>
   totpoint no_attributes_pointcloud \<noteq> 0 \<and>
   \<not> is_cached (bounds_with_radius_cache (runtime no_attributes_pointcloud)) \<and>
   \<not> is_cached (bounds_cache (runtime no_attributes_pointcloud)) \<and>
   CustomData_get_layer_named (pdata no_attributes_pointcloud) CD_PROP_FLOAT ''radius'' = None \<and>
   CustomData_get_layer_named (pdata no_attributes_pointcloud) CD_PROP_FLOAT3 ''position'' = None \<and>
   bounds_min_max binary32_0_01 empty_memory no_attributes_pointcloud True = Inl NulloptDeref"
proof -
  have s: "totpoint stale_pointcloud \<noteq> 0 \<and>
      bounds_with_radius_cache (runtime stale_pointcloud) =
        Valid \<lparr>bounds_min = float3 (- binary32_0_01) (- binary32_0_01) (- binary32_0_01),
               bounds_max = float3 binary32_0_01 binary32_0_01 binary32_0_01\<rparr>"
    by (simp add: stale_pointcloud_def)
  have t: "totpoint two_points_radii \<noteq> 0"
    using two_points_radii_facts by simp
  have one: "bounds_min_max binary32_0_01 one_point_memory one_point True =
     Inr (Some \<lparr>bounds_min = float3 (- binary32_0_01) (- binary32_0_01) (- binary32_0_01),
                bounds_max = float3 binary32_0_01 binary32_0_01 binary32_0_01\<rparr>,
          one_point\<lparr>runtime := (runtime one_point)
            \<lparr>bounds_cache := Valid \<lparr>bounds_min = float3 0 0 0, bounds_max = float3 0 0 0\<rparr>,
             bounds_with_radius_cache :=
               Valid \<lparr>bounds_min = float3 (- binary32_0_01) (- binary32_0_01) (- binary32_0_01),
                      bounds_max = float3 binary32_0_01 binary32_0_01 binary32_0_01\<rparr>\<rparr>\<rparr>)"
    using one_point_facts
      bounds_with_radius_paths [of one_point binary32_0_01 one_point_memory]
    by (simp add: pad_def)
  have two: "bounds_min_max binary32_0_01 two_point_memory two_points_radii True =
     Inr (Some \<lparr>bounds_min = float3 (- 5) (- 5) (- 5), bounds_max = float3 5 5 5\<rparr>,
          two_points_radii\<lparr>runtime := (runtime two_points_radii)
            \<lparr>bounds_with_radius_cache :=
               Valid \<lparr>bounds_min = float3 (- 5) (- 5) (- 5), bounds_max = float3 5 5 5\<rparr>\<rparr>\<rparr>)"
    using two_points_radii_facts
      bounds_with_radius_paths [OF t, of binary32_0_01 two_point_memory]
    by simp
  have stale: "bounds_min_max binary32_0_01 stale_memory stale_pointcloud True =
     Inr (Some \<lparr>bounds_min = float3 (- binary32_0_01) (- binary32_0_01) (- binary32_0_01),
                bounds_max = float3 binary32_0_01 binary32_0_01 binary32_0_01\<rparr>, stale_pointcloud)"
    using s bounds_with_radius_paths [of stale_pointcloud binary32_0_01 stale_memory]
    by simp
  have nopos: "isl (bounds_min_max binary32_0_01 no_position_memory no_position_pointcloud True)"
    using no_position_facts
      bounds_with_radius_paths [of no_position_pointcloud binary32_0_01 no_position_memory]
    by blast
  have moved: "bounds_min_max binary32_0_01 moved_point_memory moved_point True =
     Inr (Some \<lparr>bounds_min = float3 (- binary32_0_01) (- binary32_0_01) (- binary32_0_01),
                bounds_max = float3 binary32_0_01 binary32_0_01 binary32_0_01\<rparr>,
          moved_point\<lparr>runtime := (runtime moved_point)
            \<lparr>bounds_with_radius_cache :=
               Valid \<lparr>bounds_min = float3 (- binary32_0_01) (- binary32_0_01) (- binary32_0_01),
                      bounds_max = float3 binary32_0_01 binary32_0_01 binary32_0_01\<rparr>\<rparr>\<rparr>)"
  proof -
    have "bounds_min_max binary32_0_01 moved_point_memory moved_point True =
        Inr (Some (pad \<lparr>bounds_min = float3 0 0 0, bounds_max = float3 0 0 0\<rparr> binary32_0_01),
             moved_point\<lparr>runtime := (runtime moved_point)
               \<lparr>bounds_with_radius_cache :=
                  Valid (pad \<lparr>bounds_min = float3 0 0 0, bounds_max = float3 0 0 0\<rparr>
                           binary32_0_01)\<rparr>\<rparr>)"
      using moved_point_facts
        bounds_with_radius_paths [of moved_point binary32_0_01 moved_point_memory]
      by blast
    then show ?thesis
      by (simp add: pad_def)
  qed
  have noattr: "bounds_min_max binary32_0_01 empty_memory no_attributes_pointcloud True =
      Inl NulloptDeref"
    using no_attributes_facts
      bounds_with_radius_paths [of no_attributes_pointcloud binary32_0_01 empty_memory]
    by blast
  show ?thesis
    using one_point_facts two_points_radii_facts s no_position_facts moved_point_facts
      no_attributes_facts one two stale nopos moved noattr
    by simp
qed

text \<open>
  The claim as the spec states it, for every point cloud with at least one point, fails on
  two states that the functions of the source reach. \<open>untagged_radius_write\<close> leaves a valid
  cache behind the attributes: the point cloud has one point and a \<open>radius\<close> layer holding
  5, so the per-element envelope is the box from -5 to 5, and the query returns the cached
  box of the literal. \<open>radius_without_position\<close> asks for the radius layer of a point cloud
  made by \<open>pointcloud_new_no_attributes\<close>: it has one point, a \<open>radius\<close> layer and no valid
  cache, and the query returns no envelope: it dereferences an empty optional.
\<close>

theorem bounds_with_radius_counterexample:
  "untagged_radius_write = Inr (stale_memory, stale_pointcloud) \<and>
   totpoint stale_pointcloud \<noteq> 0 \<and>
   radius binary32_0_01 stale_pointcloud = ForSpan \<lparr>span_data = Some 2, span_size = 1\<rparr> \<and>
   span_elems stale_memory cpp_float3 (positions stale_pointcloud) = Inr [float3 0 0 0] \<and>
   span_elems stale_memory cpp_float \<lparr>span_data = Some 2, span_size = 1\<rparr> = Inr [5] \<and>
   min_max_with_radii [float3 0 0 0] [5::rat] =
     Some \<lparr>bounds_min = float3 (- 5) (- 5) (- 5), bounds_max = float3 5 5 5\<rparr> \<and>
   bounds_min_max binary32_0_01 stale_memory stale_pointcloud True =
     Inr (Some \<lparr>bounds_min = float3 (- binary32_0_01) (- binary32_0_01) (- binary32_0_01),
                bounds_max = float3 binary32_0_01 binary32_0_01 binary32_0_01\<rparr>, stale_pointcloud) \<and>
   \<lparr>bounds_min = float3 (- binary32_0_01) (- binary32_0_01) (- binary32_0_01),
    bounds_max = float3 binary32_0_01 binary32_0_01 binary32_0_01\<rparr> \<noteq>
   \<lparr>bounds_min = float3 (- 5) (- 5) (- 5), bounds_max = float3 (5::rat) 5 5\<rparr> \<and>
   radius_without_position = Inr (no_position_memory, no_position_pointcloud) \<and>
   totpoint no_position_pointcloud = 1 \<and>
   \<not> is_cached (bounds_with_radius_cache (runtime no_position_pointcloud)) \<and>
   radius binary32_0_01 no_position_pointcloud = ForSpan \<lparr>span_data = Some 2, span_size = 1\<rparr> \<and>
   bounds_min_max binary32_0_01 no_position_memory no_position_pointcloud True = Inl NulloptDeref"
proof -
  have reach: "untagged_radius_write = Inr (stale_memory, stale_pointcloud)"
    unfolding untagged_radius_write_def stale_memory_def stale_pointcloud_def
    by (simp add: one_point_memory_def one_point_def cpp_float3_def cpp_float_def Let_def
        bounds_min_max.simps new_PointCloudRuntime_def radius_def get_varray_attribute_def
        CustomData_get_layer_named_def positions_def get_span_attribute_def span_elems_def
        pad_def min_max_step_def radius_for_write_def get_mutable_attribute_def
        CustomData_get_layer_named_for_write_def CustomData_add_layer_named_def MEM_alloc_def
        CD_SET_DEFAULT_contents_def span_first_def span_fill_def binary32_0_01_def)
  have facts: "totpoint stale_pointcloud \<noteq> 0 \<and>
      radius binary32_0_01 stale_pointcloud = ForSpan \<lparr>span_data = Some 2, span_size = 1\<rparr> \<and>
      span_elems stale_memory cpp_float3 (positions stale_pointcloud) = Inr [float3 0 0 0] \<and>
      span_elems stale_memory cpp_float \<lparr>span_data = Some 2, span_size = 1\<rparr> = Inr [5] \<and>
      min_max_with_radii [float3 0 0 0] [5::rat] =
        Some \<lparr>bounds_min = float3 (- 5) (- 5) (- 5), bounds_max = float3 5 5 5\<rparr>"
    by (simp add: stale_pointcloud_def stale_memory_def radius_def get_varray_attribute_def
        CustomData_get_layer_named_def cpp_float_def cpp_float3_def positions_def
        get_span_attribute_def span_elems_def min_max_with_radii_step_def)
  have query: "bounds_min_max binary32_0_01 stale_memory stale_pointcloud True =
      Inr (Some \<lparr>bounds_min = float3 (- binary32_0_01) (- binary32_0_01) (- binary32_0_01),
                 bounds_max = float3 binary32_0_01 binary32_0_01 binary32_0_01\<rparr>, stale_pointcloud)"
    by (rule bounds_min_max_cached) (simp_all add: stale_pointcloud_def)
  have differ: "\<lparr>bounds_min = float3 (- binary32_0_01) (- binary32_0_01) (- binary32_0_01),
      bounds_max = float3 binary32_0_01 binary32_0_01 binary32_0_01\<rparr> \<noteq>
      \<lparr>bounds_min = float3 (- 5) (- 5) (- 5), bounds_max = float3 (5::rat) 5 5\<rparr>"
    by (simp add: binary32_0_01_def)
  have reach2: "radius_without_position = Inr (no_position_memory, no_position_pointcloud)"
    unfolding radius_without_position_def no_position_memory_def no_position_pointcloud_def
    by (simp add: pointcloud_new_no_attributes_result empty_memory_def zero_PointCloud_def
        no_attributes_pointcloud_def radius_for_write_def get_mutable_attribute_def CustomData_get_layer_named_for_write_def
        CustomData_get_layer_named_def CustomData_add_layer_named_def MEM_alloc_def cpp_float_def
        CD_SET_DEFAULT_contents_def span_first_def span_fill_def binary32_0_01_def Let_def
        numeral_2_eq_2)
  have facts2: "totpoint no_position_pointcloud = 1 \<and>
      \<not> is_cached (bounds_with_radius_cache (runtime no_position_pointcloud)) \<and>
      radius binary32_0_01 no_position_pointcloud = ForSpan \<lparr>span_data = Some 2, span_size = 1\<rparr>"
    by (simp add: no_position_pointcloud_def zero_PointCloud_def new_PointCloudRuntime_def
        radius_def get_varray_attribute_def CustomData_get_layer_named_def cpp_float_def)
  show ?thesis
    using reach facts query differ reach2 facts2 no_position_query by simp
qed

section \<open>Material index\<close>

lemma lookup_or_default_length:
  "varray_elems m T (lookup_or_default T this name domain default_value) = Inr xs \<Longrightarrow>
   length xs = nat (totpoint this)"
  by (auto simp: varray_elems_def lookup_or_default_def get_varray_attribute_def
      dest!: span_elems_length split: option.splits)

lemma lookup_or_default_absent:
  "CustomData_get_layer_named (pdata this) (cd_type T) name = None \<Longrightarrow>
   varray_elems m T (lookup_or_default T this name domain default_value) =
     Inr (replicate (nat (totpoint this)) default_value)"
  by (simp add: varray_elems_def lookup_or_default_def get_varray_attribute_def)

lemma bounds_max_Max:
  assumes "xs \<noteq> []"
  shows "bounds_max xs = Some (Max (set xs))"
proof (cases xs)
  case Nil
  with assms show ?thesis by simp
next
  case (Cons v vs)
  have "Max (set (v # vs)) = fold max vs v"
    by (rule Max.set_eq_fold)
  then show ?thesis
    using Cons by simp
qed

lemma std_clamp_range: "lo \<le> hi \<Longrightarrow> lo \<le> std_clamp v lo hi \<and> std_clamp v lo hi \<le> hi"
  by (simp add: std_clamp_def)

text \<open>
  C4. \<open>material_index_max\<close> returns no value when the point count is 0. On a point cloud
  with points it returns the maximum of the \<open>material_index\<close> attribute, read as integers
  with the default 0, clamped into the range from 0 to \<open>MAXMAT\<close>; without such a layer
  the result is 0. The point count is not negative (the data model's invariant), and
  \<open>MAXMAT\<close>, a macro that is not in src/, is not negative.
\<close>

theorem material_index_max_clamped:
  assumes "0 \<le> MAXMAT"
  shows
    "(totpoint this = 0 \<longrightarrow> material_index_max MAXMAT m this = Inr None) \<and>
     (0 < totpoint this \<longrightarrow>
        (\<forall>xs. varray_elems m cpp_int
                 (lookup_or_default cpp_int this ''material_index'' Point 0) = Inr xs \<longrightarrow>
           xs \<noteq> [] \<and>
           material_index_max MAXMAT m this = Inr (Some (std_clamp (Max (set xs)) 0 MAXMAT)) \<and>
           0 \<le> std_clamp (Max (set xs)) 0 MAXMAT \<and>
           std_clamp (Max (set xs)) 0 MAXMAT \<le> MAXMAT) \<and>
        (CustomData_get_layer_named (pdata this) CD_PROP_INT32 ''material_index'' = None \<longrightarrow>
           material_index_max MAXMAT m this = Inr (Some 0)))"
proof (intro conjI allI impI)
  assume "totpoint this = 0"
  then show "material_index_max MAXMAT m this = Inr None"
    by (simp add: material_index_max_def)
next
  fix xs
  assume pos: "0 < totpoint this"
    and xs: "varray_elems m cpp_int (lookup_or_default cpp_int this ''material_index'' Point 0) = Inr xs"
  from lookup_or_default_length [OF xs] pos show ne: "xs \<noteq> []"
    by auto
  from pos xs bounds_max_Max [OF ne]
  show "material_index_max MAXMAT m this = Inr (Some (std_clamp (Max (set xs)) 0 MAXMAT))"
    by (simp add: material_index_max_def)
  from std_clamp_range [OF assms]
  show "0 \<le> std_clamp (Max (set xs)) 0 MAXMAT" and "std_clamp (Max (set xs)) 0 MAXMAT \<le> MAXMAT"
    by simp_all
next
  assume pos: "0 < totpoint this"
    and absent: "CustomData_get_layer_named (pdata this) CD_PROP_INT32 ''material_index'' = None"
  have
    "varray_elems m cpp_int (lookup_or_default cpp_int this ''material_index'' Point 0) =
       Inr (replicate (nat (totpoint this)) 0)"
    by (rule lookup_or_default_absent) (simp add: cpp_int_def absent)
  moreover have "replicate (nat (totpoint this)) (0::int) \<noteq> []"
    using pos by simp
  moreover have "set (replicate (nat (totpoint this)) (0::int)) = {0}"
    using pos by auto
  ultimately show "material_index_max MAXMAT m this = Inr (Some 0)"
    using pos assms by (simp add: material_index_max_def bounds_max_Max std_clamp_def)
qed

lemma three_points_elems:
  "varray_elems three_point_memory cpp_int
     (lookup_or_default cpp_int (three_points [material_index_layer 2]) ''material_index'' Point 0) =
     Inr [0, 7, 0] \<and>
   varray_elems three_point_memory cpp_int
     (lookup_or_default cpp_int (three_points [material_index_layer 3]) ''material_index'' Point 0) =
     Inr [0, 40000, 0]"
  by (simp add: varray_elems_def lookup_or_default_def get_varray_attribute_def
      CustomData_get_layer_named_def three_points_def material_index_layer_def cpp_int_def
      span_elems_def three_point_memory_def eval_nat_numeral)

theorem material_index_max_clamped_witness:
  "(0::int) \<le> 32766 \<and>
   totpoint (zero_PointCloud :: rat PointCloud) = 0 \<and>
   material_index_max 32766 empty_memory zero_PointCloud = Inr None \<and>
   0 < totpoint (three_points []) \<and>
   CustomData_get_layer_named (pdata (three_points [])) CD_PROP_INT32 ''material_index'' = None \<and>
   material_index_max 32766 three_point_memory (three_points []) = Inr (Some 0) \<and>
   0 < totpoint (three_points [material_index_layer 2]) \<and>
   material_index_max 32766 three_point_memory (three_points [material_index_layer 2]) =
     Inr (Some 7) \<and>
   0 < totpoint (three_points [material_index_layer 3]) \<and>
   material_index_max 32766 three_point_memory (three_points [material_index_layer 3]) =
     Inr (Some 32766)"
proof -
  have h: "(0::int) \<le> 32766"
    by simp
  have t: "totpoint (zero_PointCloud :: rat PointCloud) = 0 \<and> 0 < totpoint (three_points []) \<and>
      0 < totpoint (three_points [material_index_layer 2]) \<and>
      0 < totpoint (three_points [material_index_layer 3]) \<and>
      CustomData_get_layer_named (pdata (three_points [])) CD_PROP_INT32 ''material_index'' = None"
    by (simp add: zero_PointCloud_def three_points_def CustomData_get_layer_named_def)
  show ?thesis
    using h t three_points_elems
      material_index_max_clamped [OF h, of zero_PointCloud empty_memory]
      material_index_max_clamped [OF h, of "three_points []" three_point_memory]
      material_index_max_clamped [OF h, of "three_points [material_index_layer 2]" three_point_memory]
      material_index_max_clamped [OF h, of "three_points [material_index_layer 3]" three_point_memory]
    by (simp add: std_clamp_def)
qed

section \<open>Write access to an attribute\<close>

text \<open>
  C5. \<open>get_mutable_attribute\<close>: when the point count is not positive the result is the
  empty span, and neither the memory nor the point cloud changes (no layer is allocated).
  When a layer of that name and type exists, its span is returned and nothing is written:
  the default never overwrites it. Otherwise a layer is allocated and appended, and it is
  filled with the requested default exactly when its first element differs from that
  default; a fresh layer whose first element equals the default is left as allocated.
\<close>

theorem get_mutable_attribute_cases:
  "(totpoint pointcloud \<le> 0 \<longrightarrow>
      get_mutable_attribute cd_set_default T m pointcloud name default_value =
        Inr (m, pointcloud, empty_span)) \<and>
   (0 < totpoint pointcloud \<longrightarrow>
      (\<forall>data. CustomData_get_layer_named (pdata pointcloud) (cd_type T) name = Some data \<longrightarrow>
         get_mutable_attribute cd_set_default T m pointcloud name default_value =
           Inr (m, pointcloud, \<lparr>span_data = Some data, span_size = totpoint pointcloud\<rparr>)) \<and>
      (CustomData_get_layer_named (pdata pointcloud) (cd_type T) name = None \<longrightarrow>
         (let m1 = m\<lparr>mem_lim := Suc (mem_lim m),
                      arrays := (arrays m)(mem_lim m \<mapsto>
                        cd_set_default (cd_type T) (nat (totpoint pointcloud)))\<rparr>;
              pointcloud1 = pointcloud\<lparr>pdata := pdata pointcloud @
                [\<lparr>layer_type = cd_type T, layer_name = name, layer_data = mem_lim m\<rparr>]\<rparr>;
              span = \<lparr>span_data = Some (mem_lim m), span_size = totpoint pointcloud\<rparr>
          in get_mutable_attribute cd_set_default T m pointcloud name default_value =
               (case span_first m1 T span of
                  Inl e \<Rightarrow> Inl e
                | Inr first \<Rightarrow>
                    Inr (if first \<noteq> default_value then span_fill m1 T span default_value else m1,
                         pointcloud1, span)))))"
  by (auto simp: get_mutable_attribute_def CustomData_get_layer_named_for_write_def
      CustomData_add_layer_named_def MEM_alloc_def Let_def split: sum.splits)

theorem get_mutable_attribute_cases_witness:
  "totpoint (zero_PointCloud :: rat PointCloud) \<le> 0 \<and>
   get_mutable_attribute CD_SET_DEFAULT_contents cpp_float empty_memory zero_PointCloud ''radius'' binary32_0_01 =
     Inr (empty_memory, zero_PointCloud, empty_span) \<and>
   0 < totpoint two_points \<and>
   CustomData_get_layer_named (pdata two_points)
     (cd_type (cpp_float3 :: (rat float3, rat) CPPType)) ''position'' = Some 1 \<and>
   get_mutable_attribute CD_SET_DEFAULT_contents cpp_float3 two_point_memory two_points ''position''
       (float3 9 9 9) =
     Inr (two_point_memory, two_points, \<lparr>span_data = Some 1, span_size = 2\<rparr>) \<and>
   CustomData_get_layer_named (pdata two_points)
     (cd_type (cpp_float :: (rat, rat) CPPType)) ''radius'' = None \<and>
   get_mutable_attribute CD_SET_DEFAULT_contents cpp_float two_point_memory two_points ''radius'' binary32_0_01 =
     Inr (two_point_memory\<lparr>mem_lim := 4,
            arrays := (arrays two_point_memory)(3 \<mapsto> [VFloat binary32_0_01, VFloat binary32_0_01])\<rparr>,
          two_points\<lparr>pdata := pdata two_points @
            [\<lparr>layer_type = CD_PROP_FLOAT, layer_name = ''radius'', layer_data = 3\<rparr>]\<rparr>,
          \<lparr>span_data = Some 3, span_size = 2\<rparr>) \<and>
   get_mutable_attribute first_is_default cpp_float two_point_memory two_points ''radius'' binary32_0_01 =
     Inr (two_point_memory\<lparr>mem_lim := 4,
            arrays := (arrays two_point_memory)(3 \<mapsto> [VFloat binary32_0_01, VFloat 7])\<rparr>,
          two_points\<lparr>pdata := pdata two_points @
            [\<lparr>layer_type = CD_PROP_FLOAT, layer_name = ''radius'', layer_data = 3\<rparr>]\<rparr>,
          \<lparr>span_data = Some 3, span_size = 2\<rparr>)"
  using get_mutable_attribute_cases [of zero_PointCloud CD_SET_DEFAULT_contents cpp_float empty_memory
      "''radius''" binary32_0_01]
    get_mutable_attribute_cases [of two_points CD_SET_DEFAULT_contents cpp_float3 two_point_memory
      "''position''" "float3 9 9 9"]
    get_mutable_attribute_cases [of two_points CD_SET_DEFAULT_contents cpp_float two_point_memory
      "''radius''" binary32_0_01]
    get_mutable_attribute_cases [of two_points first_is_default cpp_float two_point_memory
      "''radius''" binary32_0_01]
  by (simp add: zero_PointCloud_def two_points_def two_point_memory_def cpp_float_def cpp_float3_def
      CustomData_get_layer_named_def span_first_def span_fill_def CD_SET_DEFAULT_contents_def
      first_is_default_def binary32_0_01_def Let_def eval_nat_numeral)

section \<open>Construction\<close>

lemma those_values_replicate:
  "f v = Some x \<Longrightarrow> those_values f (replicate n v) = Some (replicate n x)"
  by (induction n) simp_all

text \<open>
  C8. For every \<open>N \<ge> 0\<close>, \<open>BKE_pointcloud_new_nomain\<close> returns the address of a new
  point cloud whose point count is \<open>N\<close> and whose \<open>position\<close> layer exists and has
  exactly \<open>N\<close> elements, which read as \<open>N\<close> positions.
\<close>

theorem new_nomain_point_count:
  assumes "0 \<le> n" and "BKE_pointcloud_new_nomain m n = (m', p)"
  shows "\<exists>pointcloud a vs.
           pointclouds m' p = Some pointcloud \<and>
           totpoint pointcloud = n \<and>
           CustomData_get_layer_named (pdata pointcloud) CD_PROP_FLOAT3 ''position'' = Some a \<and>
           arrays m' a = Some vs \<and>
           int (length vs) = n \<and>
           span_elems m' cpp_float3 (positions pointcloud) =
             Inr (replicate (nat n) (float3 0 0 0))"
proof -
  let ?pc = "zero_PointCloud\<lparr>totpoint := n,
            pdata := [\<lparr>layer_type = CD_PROP_FLOAT3, layer_name = ''position'',
                       layer_data = Suc (mem_lim m)\<rparr>]\<rparr>"
  let ?vs = "replicate (nat n) (VFloat3 (float3 0 0 0))"
  from assms(2) have m': "m' = m\<lparr>mem_lim := Suc (Suc (mem_lim m)),
        arrays := (arrays m)(Suc (mem_lim m) \<mapsto> ?vs),
        pointclouds := (pointclouds m)(mem_lim m \<mapsto> ?pc)\<rparr>" and p: "p = mem_lim m"
    by (auto simp: BKE_pointcloud_new_nomain_result)
  have 1: "pointclouds m' p = Some ?pc" by (simp add: m' p)
  have 2: "totpoint ?pc = n" by simp
  have 3: "CustomData_get_layer_named (pdata ?pc) CD_PROP_FLOAT3 ''position'' = Some (Suc (mem_lim m))"
    by (simp add: CustomData_get_layer_named_def)
  have 4: "arrays m' (Suc (mem_lim m)) = Some ?vs" by (simp add: m')
  have 5: "int (length ?vs) = n" using assms(1) by simp
  have 6: "span_elems m' cpp_float3 (positions ?pc) = Inr (replicate (nat n) (float3 0 0 0))"
    using assms(1)
    by (simp add: span_elems_def positions_def get_span_attribute_def CustomData_get_layer_named_def
        cpp_float3_def m' those_values_replicate)
  from 1 2 3 4 5 6 show ?thesis by blast
qed

theorem new_nomain_point_count_witness:
  "(0::int) \<le> 3 \<and>
   BKE_pointcloud_new_nomain empty_memory 3 =
     (fst (BKE_pointcloud_new_nomain empty_memory 3), 0) \<and>
   (\<exists>pointcloud a vs.
      pointclouds (fst (BKE_pointcloud_new_nomain empty_memory 3)) 0 = Some pointcloud \<and>
      totpoint pointcloud = 3 \<and>
      CustomData_get_layer_named (pdata pointcloud) CD_PROP_FLOAT3 ''position'' = Some a \<and>
      arrays (fst (BKE_pointcloud_new_nomain empty_memory 3)) a = Some vs \<and>
      int (length vs) = 3 \<and>
      span_elems (fst (BKE_pointcloud_new_nomain empty_memory 3)) cpp_float3 (positions pointcloud) =
        Inr [float3 0 0 0, float3 0 0 0, float3 0 0 0]) \<and>
   (0::int) \<le> 0 \<and>
   BKE_pointcloud_new_nomain empty_memory 0 =
     (fst (BKE_pointcloud_new_nomain empty_memory 0), 0) \<and>
   (\<exists>pointcloud a vs.
      pointclouds (fst (BKE_pointcloud_new_nomain empty_memory 0)) 0 = Some pointcloud \<and>
      totpoint pointcloud = 0 \<and>
      CustomData_get_layer_named (pdata pointcloud) CD_PROP_FLOAT3 ''position'' = Some a \<and>
      arrays (fst (BKE_pointcloud_new_nomain empty_memory 0)) a = Some vs \<and>
      int (length vs) = 0 \<and>
      span_elems (fst (BKE_pointcloud_new_nomain empty_memory 0)) cpp_float3 (positions pointcloud) =
        Inr [])"
proof -
  have e3: "BKE_pointcloud_new_nomain empty_memory 3 =
      (fst (BKE_pointcloud_new_nomain empty_memory 3), 0)"
    by (simp add: BKE_pointcloud_new_nomain_result empty_memory_def)
  have e0: "BKE_pointcloud_new_nomain empty_memory 0 =
      (fst (BKE_pointcloud_new_nomain empty_memory 0), 0)"
    by (simp add: BKE_pointcloud_new_nomain_result empty_memory_def)
  have r: "replicate (nat 3) (float3 0 0 (0::rat)) = [float3 0 0 0, float3 0 0 0, float3 0 0 0]"
    by (simp add: eval_nat_numeral)
  show ?thesis
    using e3 e0 r new_nomain_point_count [OF _ e3] new_nomain_point_count [OF _ e0]
    by simp
qed

text \<open>
  C10. \<open>pointcloud_new_no_attributes\<close> returns the address of a new point cloud whose
  point count is the argument and which has no layer named \<open>position\<close>, of any type: its
  positions are the empty span. \<open>BKE_pointcloud_attribute_required\<close> holds of the name
  \<open>position\<close> and of no other name, so the point cloud lacks the one attribute that is
  required to exist.
\<close>

theorem new_no_attributes_has_no_position:
  assumes "pointcloud_new_no_attributes m n = (m', p)"
  shows "\<exists>pointcloud.
           pointclouds m' p = Some pointcloud \<and>
           totpoint pointcloud = n \<and>
           ''position'' \<notin> set (map layer_name (pdata pointcloud)) \<and>
           (\<forall>type. CustomData_get_layer_named (pdata pointcloud) type ''position'' = None) \<and>
           positions pointcloud = empty_span \<and>
           BKE_pointcloud_attribute_required pointcloud ''position'' \<and>
           (\<forall>name. BKE_pointcloud_attribute_required pointcloud name = (name = ''position''))"
proof -
  from assms have m': "m' = m\<lparr>mem_lim := Suc (Suc (mem_lim m)),
        arrays := (arrays m)(Suc (mem_lim m) := None),
        pointclouds := (pointclouds m)(mem_lim m \<mapsto> zero_PointCloud\<lparr>totpoint := n\<rparr>)\<rparr>"
    and p: "p = mem_lim m"
    by (auto simp: pointcloud_new_no_attributes_result)
  have "pointclouds m' p = Some (zero_PointCloud\<lparr>totpoint := n\<rparr>)"
    by (simp add: m' p)
  then show ?thesis
    by (simp add: zero_PointCloud_def CustomData_get_layer_named_def positions_def
        get_span_attribute_def BKE_pointcloud_attribute_required_def ATTR_POSITION_def)
qed

theorem new_no_attributes_has_no_position_witness:
  "pointcloud_new_no_attributes empty_memory 5 =
     (fst (pointcloud_new_no_attributes empty_memory 5), 0) \<and>
   (\<exists>pointcloud.
      pointclouds (fst (pointcloud_new_no_attributes empty_memory 5)) 0 = Some pointcloud \<and>
      totpoint pointcloud = 5 \<and>
      pdata pointcloud = [] \<and>
      positions pointcloud = empty_span \<and>
      BKE_pointcloud_attribute_required pointcloud ''position'' \<and>
      \<not> BKE_pointcloud_attribute_required pointcloud ''radius'')"
proof -
  have e: "pointcloud_new_no_attributes empty_memory 5 =
      (fst (pointcloud_new_no_attributes empty_memory 5), 0)"
    by (simp add: pointcloud_new_no_attributes_result empty_memory_def)
  have "pointclouds (fst (pointcloud_new_no_attributes empty_memory 5)) 0 =
      Some (zero_PointCloud\<lparr>totpoint := 5\<rparr>)"
    by (simp add: pointcloud_new_no_attributes_result empty_memory_def)
  moreover have "pdata (zero_PointCloud\<lparr>totpoint := 5\<rparr>) = []"
    by (simp add: zero_PointCloud_def)
  ultimately show ?thesis
    using e new_no_attributes_has_no_position [OF e]
    by auto
qed

section \<open>Evaluation result and ownership\<close>

lemma evaluate_modifier_list_none_enabled:
  "\<forall>md \<in> set mds. \<not> BKE_modifier_is_enabled env scene md required_mode \<Longrightarrow>
   evaluate_modifier_list env scene required_mode mectx mds mg = mg"
  by (induction mds) (simp_all add: Let_def)

lemma free_derived_caches_object_data:
  "BKE_object_free_derived_caches m object = (m0, object0) \<Longrightarrow>
   object_data object0 = object_data object \<and> modifiers object0 = modifiers object"
  by (auto simp: BKE_object_free_derived_caches_def Let_def)

lemma take_ownership_absent:
  "\<not> has_pointcloud geometry_set \<Longrightarrow>
   fst (take_pointcloud_ownership_from_geometry_set geometry_set) = None"
  by (auto simp: has_pointcloud_def take_pointcloud_ownership_from_geometry_set_def
      component_release_def split: option.splits)

lemma take_ownership_present:
  "pointcloud_component geometry_set = Some component \<Longrightarrow>
   component_pointcloud component = Some p \<Longrightarrow>
   take_pointcloud_ownership_from_geometry_set geometry_set =
     (Some p, geometry_set\<lparr>pointcloud_component :=
        Some (component\<lparr>component_pointcloud := Some p, component_ownership := ReadOnly\<rparr>)\<rparr>)"
  by (simp add: take_pointcloud_ownership_from_geometry_set_def component_release_def
      component_replace_def)

lemma data_update_unfold:
  assumes "BKE_object_free_derived_caches m object = (m0, object0)"
    and "pointcloud_evaluate_modifiers env depsgraph scene object0
           (m0, GeometrySet_from_pointcloud (object_data object) ReadOnly) =
         (object1, m1, geometry_set1)"
  shows "BKE_pointcloud_data_update env depsgraph scene m object =
     (let (pointcloud_eval, geometry_set2) =
             take_pointcloud_ownership_from_geometry_set geometry_set1;
          (m2, pointcloud_eval1) =
             (case pointcloud_eval of
                None \<Rightarrow> (let (m', p) = BKE_pointcloud_new_nomain m1 0 in (m', Some p))
              | Some p \<Rightarrow> (m1, Some p));
          eval_is_owned = (pointcloud_eval1 \<noteq> object_data object);
          object2 = BKE_object_eval_assign_data object1 pointcloud_eval1 eval_is_owned
      in (m2, object2\<lparr>object_runtime := (object_runtime object2)
                 \<lparr>geometry_set_eval := Some geometry_set2\<rparr>\<rparr>))"
  using assms free_derived_caches_object_data [OF assms(1)]
  by (simp add: BKE_pointcloud_data_update_def)

text \<open>
  C7. The object's data is the point cloud at \<open>p\<close>. When the stages leave the geometry
  container as it was built from \<open>p\<close>, the evaluated data is \<open>p\<close> itself and the
  ownership flag is not set; that is the case in particular when no modifier of the list
  is enabled, and then the stages leave the memory alone too. After every run the flag is
  set exactly when the evaluated data is another address than \<open>p\<close>. The evaluated data
  is the final point cloud of the container: when the component holds the point cloud at
  \<open>q\<close> after the stages, whatever its ownership type, the evaluated data is \<open>q\<close>, the
  flag is set exactly when \<open>q\<close> is not \<open>p\<close>, the container handed to the object holds
  \<open>q\<close> read-only, and nothing is allocated; when the container holds no point cloud, the
  evaluated data is the address of the point cloud allocated in its place, and the flag is
  set exactly when that address is not \<open>p\<close>.
\<close>

theorem data_update_ownership_flag:
  assumes "object_data object = Some p"
    and "BKE_object_free_derived_caches m object = (m0, object0)"
    and "pointcloud_evaluate_modifiers env depsgraph scene object0
           (m0, GeometrySet_from_pointcloud (Some p) ReadOnly) = (object1, m1, geometry_set1)"
    and "BKE_pointcloud_data_update env depsgraph scene m object = (m', object')"
  shows
    "(geometry_set1 = GeometrySet_from_pointcloud (Some p) ReadOnly \<longrightarrow>
        data_eval (object_runtime object') = Some p \<and>
        \<not> is_data_eval_owned (object_runtime object')) \<and>
     ((\<forall>md \<in> set (BKE_modifiers_get_virtual_modifierlist env (BKE_modifiers_clear_errors object0)).
         \<not> BKE_modifier_is_enabled env scene md
             (if DEG_get_mode depsgraph = DAG_EVAL_RENDER then eModifierMode_Render
              else eModifierMode_Realtime)) \<longrightarrow>
        geometry_set1 = GeometrySet_from_pointcloud (Some p) ReadOnly \<and> m1 = m0 \<and>
        data_eval (object_runtime object') = Some p \<and>
        \<not> is_data_eval_owned (object_runtime object')) \<and>
     is_data_eval_owned (object_runtime object') = (data_eval (object_runtime object') \<noteq> Some p) \<and>
     (\<forall>component q.
        pointcloud_component geometry_set1 = Some component \<and>
        component_pointcloud component = Some q \<longrightarrow>
        data_eval (object_runtime object') = Some q \<and>
        is_data_eval_owned (object_runtime object') = (q \<noteq> p) \<and>
        geometry_set_eval (object_runtime object') =
          Some (geometry_set1\<lparr>pointcloud_component :=
            Some (component\<lparr>component_pointcloud := Some q, component_ownership := ReadOnly\<rparr>)\<rparr>) \<and>
        m' = m1) \<and>
     (\<not> has_pointcloud geometry_set1 \<longrightarrow>
        data_eval (object_runtime object') = Some (mem_lim m1) \<and>
        is_data_eval_owned (object_runtime object') = (mem_lim m1 \<noteq> p) \<and>
        m' = fst (BKE_pointcloud_new_nomain m1 0))"
proof -
  note u = data_update_unfold [OF assms(2), of env depsgraph scene object1 m1 geometry_set1]
  have upd: "(m', object') =
     (let (pointcloud_eval, geometry_set2) =
             take_pointcloud_ownership_from_geometry_set geometry_set1;
          (m2, pointcloud_eval1) =
             (case pointcloud_eval of
                None \<Rightarrow> (let (m', p) = BKE_pointcloud_new_nomain m1 0 in (m', Some p))
              | Some p \<Rightarrow> (m1, Some p));
          eval_is_owned = (pointcloud_eval1 \<noteq> Some p);
          object2 = BKE_object_eval_assign_data object1 pointcloud_eval1 eval_is_owned
      in (m2, object2\<lparr>object_runtime := (object_runtime object2)
                 \<lparr>geometry_set_eval := Some geometry_set2\<rparr>\<rparr>))"
    using u assms(1,3,4) by simp
  have flag: "is_data_eval_owned (object_runtime object') =
      (data_eval (object_runtime object') \<noteq> Some p)"
    using upd
    by (auto simp: Let_def BKE_object_eval_assign_data_def split: prod.splits option.splits)
  have same: "data_eval (object_runtime object') = Some p \<and>
        \<not> is_data_eval_owned (object_runtime object')"
    if "geometry_set1 = GeometrySet_from_pointcloud (Some p) ReadOnly"
    using upd that
    by (simp add: GeometrySet_from_pointcloud_def take_pointcloud_ownership_from_geometry_set_def
        component_release_def component_replace_def BKE_object_eval_assign_data_def Let_def)
  have none0: "geometry_set1 = GeometrySet_from_pointcloud (Some p) ReadOnly \<and> m1 = m0"
    if "\<forall>md \<in> set (BKE_modifiers_get_virtual_modifierlist env (BKE_modifiers_clear_errors object0)).
         \<not> BKE_modifier_is_enabled env scene md
             (if DEG_get_mode depsgraph = DAG_EVAL_RENDER then eModifierMode_Render
              else eModifierMode_Realtime)"
    using assms(3) evaluate_modifier_list_none_enabled [OF that]
    by (auto simp: pointcloud_evaluate_modifiers_def Let_def)
  have none: "geometry_set1 = GeometrySet_from_pointcloud (Some p) ReadOnly \<and> m1 = m0 \<and>
        data_eval (object_runtime object') = Some p \<and>
        \<not> is_data_eval_owned (object_runtime object')"
    if "\<forall>md \<in> set (BKE_modifiers_get_virtual_modifierlist env (BKE_modifiers_clear_errors object0)).
         \<not> BKE_modifier_is_enabled env scene md
             (if DEG_get_mode depsgraph = DAG_EVAL_RENDER then eModifierMode_Render
              else eModifierMode_Realtime)"
    using none0 [OF that] same by simp
  have present: "data_eval (object_runtime object') = Some q \<and>
        is_data_eval_owned (object_runtime object') = (q \<noteq> p) \<and>
        geometry_set_eval (object_runtime object') =
          Some (geometry_set1\<lparr>pointcloud_component :=
            Some (component\<lparr>component_pointcloud := Some q, component_ownership := ReadOnly\<rparr>)\<rparr>) \<and>
        m' = m1"
    if "pointcloud_component geometry_set1 = Some component \<and>
        component_pointcloud component = Some q" for component q
    using upd that take_ownership_present [of geometry_set1 component q]
    by (auto simp: Let_def BKE_object_eval_assign_data_def)
  have absent: "data_eval (object_runtime object') = Some (mem_lim m1) \<and>
        is_data_eval_owned (object_runtime object') = (mem_lim m1 \<noteq> p) \<and>
        m' = fst (BKE_pointcloud_new_nomain m1 0)"
    if h: "\<not> has_pointcloud geometry_set1"
  proof -
    obtain geometry_set2 where t: "take_pointcloud_ownership_from_geometry_set geometry_set1 =
        (None, geometry_set2)"
      using take_ownership_absent [OF h]
      by (cases "take_pointcloud_ownership_from_geometry_set geometry_set1") auto
    show ?thesis
      using upd t
      by (auto simp: Let_def BKE_pointcloud_new_nomain_result BKE_object_eval_assign_data_def)
  qed
  from flag same none present absent show ?thesis by blast
qed

text \<open>
  C6. When the geometry container holds no point cloud after the stages (no component, or
  a component without a point cloud), the evaluated data is not null: it is the address
  of a point cloud allocated after the stages, with zero points and an empty position
  layer, and the ownership flag is set. The object's original data, if any, is an address
  the allocator has handed out before, as a live data-block is.
\<close>

theorem data_update_synthesizes_empty:
  assumes "BKE_object_free_derived_caches m object = (m0, object0)"
    and "pointcloud_evaluate_modifiers env depsgraph scene object0
           (m0, GeometrySet_from_pointcloud (object_data object) ReadOnly) =
         (object1, m1, geometry_set1)"
    and "\<not> has_pointcloud geometry_set1"
    and "\<forall>p. object_data object = Some p \<longrightarrow> p < mem_lim m1"
    and "BKE_pointcloud_data_update env depsgraph scene m object = (m', object')"
  shows "\<exists>pointcloud.
           data_eval (object_runtime object') = Some (mem_lim m1) \<and>
           pointclouds m' (mem_lim m1) = Some pointcloud \<and>
           totpoint pointcloud = 0 \<and>
           span_elems m' cpp_float3 (positions pointcloud) = Inr [] \<and>
           Some (mem_lim m1) \<noteq> object_data object \<and>
           is_data_eval_owned (object_runtime object')"
proof -
  note u = data_update_unfold [OF assms(1,2)]
  obtain geometry_set2 where t: "take_pointcloud_ownership_from_geometry_set geometry_set1 =
      (None, geometry_set2)"
    using take_ownership_absent [OF assms(3)]
    by (cases "take_pointcloud_ownership_from_geometry_set geometry_set1") auto
  have ne: "Some (mem_lim m1) \<noteq> object_data object"
  proof
    assume "Some (mem_lim m1) = object_data object"
    then have "object_data object = Some (mem_lim m1)"
      by simp
    with assms(4) have "mem_lim m1 < mem_lim m1"
      by blast
    then show False
      by simp
  qed
  have upd: "m' = fst (BKE_pointcloud_new_nomain m1 0) \<and>
      data_eval (object_runtime object') = Some (mem_lim m1) \<and>
      is_data_eval_owned (object_runtime object')"
    using u assms(5) t ne
    by (auto simp: Let_def BKE_pointcloud_new_nomain_result BKE_object_eval_assign_data_def)
  have "pointclouds m' (mem_lim m1) =
      Some (zero_PointCloud\<lparr>totpoint := 0,
              pdata := [\<lparr>layer_type = CD_PROP_FLOAT3, layer_name = ''position'',
                         layer_data = Suc (mem_lim m1)\<rparr>]\<rparr>)"
    using upd by (simp add: BKE_pointcloud_new_nomain_result)
  moreover have "span_elems m' cpp_float3
      (positions (zero_PointCloud\<lparr>totpoint := 0,
              pdata := [\<lparr>layer_type = CD_PROP_FLOAT3, layer_name = ''position'',
                         layer_data = Suc (mem_lim m1)\<rparr>]\<rparr>)) = Inr []"
    by (simp add: span_elems_def positions_def get_span_attribute_def
        CustomData_get_layer_named_def cpp_float3_def empty_span_def)
  ultimately show ?thesis
    using upd ne by simp
qed

lemma object_free_derived_caches:
  "BKE_object_free_derived_caches object_memory (pointcloud_object mds) =
     (object_memory, pointcloud_object mds)"
  by (simp add: BKE_object_free_derived_caches_def pointcloud_object_def)

lemma object_evaluate_disabled:
  "pointcloud_evaluate_modifiers (stage_env False) viewport 0 (pointcloud_object [a_modifier])
     (object_memory, GeometrySet_from_pointcloud (Some 0) ReadOnly) =
   (pointcloud_object [a_modifier], object_memory, GeometrySet_from_pointcloud (Some 0) ReadOnly)"
  by (simp add: pointcloud_evaluate_modifiers_def stage_env_def pointcloud_object_def
      BKE_modifiers_clear_errors_def a_modifier_def Let_def)

lemma object_evaluate_none:
  "pointcloud_evaluate_modifiers (stage_env True) viewport 0 (pointcloud_object [])
     (object_memory, GeometrySet_from_pointcloud (Some 0) ReadOnly) =
   (pointcloud_object [], object_memory, GeometrySet_from_pointcloud (Some 0) ReadOnly)"
  by (simp add: pointcloud_evaluate_modifiers_def stage_env_def pointcloud_object_def
      BKE_modifiers_clear_errors_def Let_def)

lemma object_evaluate_discard:
  "pointcloud_evaluate_modifiers (stage_env True) viewport 0 (pointcloud_object [a_modifier])
     (object_memory, GeometrySet_from_pointcloud (Some 0) ReadOnly) =
   (pointcloud_object [a_modifier], object_memory, \<lparr>pointcloud_component = None\<rparr>)"
  by (simp add: pointcloud_evaluate_modifiers_def stage_env_def pointcloud_object_def
      BKE_modifiers_clear_errors_def a_modifier_def discard_stage_def
      GeometrySet_from_pointcloud_def Let_def)

lemma object_evaluate_replace:
  "pointcloud_evaluate_modifiers stages_env viewport 0 (pointcloud_object [replace_modifier])
     (object_memory, GeometrySet_from_pointcloud (Some 0) ReadOnly) =
   (pointcloud_object [replace_modifier], fst (BKE_pointcloud_new_nomain object_memory 1),
    GeometrySet_from_pointcloud (Some 2) Owned)"
  by (simp add: pointcloud_evaluate_modifiers_def stages_env_def pointcloud_object_def
      BKE_modifiers_clear_errors_def replace_modifier_def replace_stage_def
      BKE_pointcloud_new_nomain_result object_memory_def one_point_memory_def Let_def)

lemma object_evaluate_retag:
  "pointcloud_evaluate_modifiers stages_env viewport 0 (pointcloud_object [retag_modifier])
     (object_memory, GeometrySet_from_pointcloud (Some 0) ReadOnly) =
   (pointcloud_object [retag_modifier], object_memory,
    \<lparr>pointcloud_component =
       Some \<lparr>component_pointcloud = Some 0, component_ownership = Editable\<rparr>\<rparr>)"
  by (simp add: pointcloud_evaluate_modifiers_def stages_env_def pointcloud_object_def
      BKE_modifiers_clear_errors_def retag_modifier_def retag_stage_def
      GeometrySet_from_pointcloud_def Let_def)

theorem data_update_ownership_flag_witness:
  "object_data (pointcloud_object []) = Some 0 \<and>
   data_eval (object_runtime (snd (BKE_pointcloud_data_update (stage_env True) viewport 0
     object_memory (pointcloud_object [])))) = Some 0 \<and>
   \<not> is_data_eval_owned (object_runtime (snd (BKE_pointcloud_data_update (stage_env True) viewport 0
     object_memory (pointcloud_object [])))) \<and>
   object_data (pointcloud_object [a_modifier]) = Some 0 \<and>
   data_eval (object_runtime (snd (BKE_pointcloud_data_update (stage_env False) viewport 0
     object_memory (pointcloud_object [a_modifier])))) = Some 0 \<and>
   \<not> is_data_eval_owned (object_runtime (snd (BKE_pointcloud_data_update (stage_env False) viewport 0
     object_memory (pointcloud_object [a_modifier])))) \<and>
   data_eval (object_runtime (snd (BKE_pointcloud_data_update (stage_env True) viewport 0
     object_memory (pointcloud_object [a_modifier])))) = Some 2 \<and>
   is_data_eval_owned (object_runtime (snd (BKE_pointcloud_data_update (stage_env True) viewport 0
     object_memory (pointcloud_object [a_modifier])))) \<and>
   data_eval (object_runtime (snd (BKE_pointcloud_data_update stages_env viewport 0
     object_memory (pointcloud_object [replace_modifier])))) = Some 2 \<and>
   is_data_eval_owned (object_runtime (snd (BKE_pointcloud_data_update stages_env viewport 0
     object_memory (pointcloud_object [replace_modifier])))) \<and>
   geometry_set_eval (object_runtime (snd (BKE_pointcloud_data_update stages_env viewport 0
     object_memory (pointcloud_object [replace_modifier])))) =
     Some (GeometrySet_from_pointcloud (Some 2) ReadOnly) \<and>
   fst (BKE_pointcloud_data_update stages_env viewport 0
     object_memory (pointcloud_object [replace_modifier])) =
     fst (BKE_pointcloud_new_nomain object_memory 1) \<and>
   data_eval (object_runtime (snd (BKE_pointcloud_data_update stages_env viewport 0
     object_memory (pointcloud_object [retag_modifier])))) = Some 0 \<and>
   \<not> is_data_eval_owned (object_runtime (snd (BKE_pointcloud_data_update stages_env viewport 0
     object_memory (pointcloud_object [retag_modifier])))) \<and>
   geometry_set_eval (object_runtime (snd (BKE_pointcloud_data_update stages_env viewport 0
     object_memory (pointcloud_object [retag_modifier])))) =
     Some (GeometrySet_from_pointcloud (Some 0) ReadOnly) \<and>
   fst (BKE_pointcloud_data_update stages_env viewport 0
     object_memory (pointcloud_object [retag_modifier])) = object_memory"
proof -
  have d: "object_data (pointcloud_object mds) = Some 0" for mds
    by (simp add: pointcloud_object_def)
  have e: "BKE_pointcloud_data_update env viewport 0 object_memory (pointcloud_object mds) =
      (fst (BKE_pointcloud_data_update env viewport 0 object_memory (pointcloud_object mds)),
       snd (BKE_pointcloud_data_update env viewport 0 object_memory (pointcloud_object mds)))"
    for env mds
    by simp
  have n: "\<forall>md \<in> set (BKE_modifiers_get_virtual_modifierlist (stage_env False)
               (BKE_modifiers_clear_errors (pointcloud_object [a_modifier]))).
         \<not> BKE_modifier_is_enabled (stage_env False) 0 md
             (if DEG_get_mode viewport = DAG_EVAL_RENDER then eModifierMode_Render
              else eModifierMode_Realtime)"
    by (simp add: stage_env_def)
  have l: "mem_lim object_memory = 2"
    by (simp add: object_memory_def one_point_memory_def)
  have h: "\<not> has_pointcloud \<lparr>pointcloud_component = None\<rparr>"
    by (simp add: has_pointcloud_def)
  have none: "data_eval (object_runtime (snd (BKE_pointcloud_data_update (stage_env True) viewport 0
      object_memory (pointcloud_object [])))) = Some 0 \<and>
    \<not> is_data_eval_owned (object_runtime (snd (BKE_pointcloud_data_update (stage_env True) viewport 0
      object_memory (pointcloud_object []))))"
    using data_update_ownership_flag [OF d object_free_derived_caches object_evaluate_none e]
    by simp
  have disabled: "data_eval (object_runtime (snd (BKE_pointcloud_data_update (stage_env False) viewport 0
      object_memory (pointcloud_object [a_modifier])))) = Some 0 \<and>
    \<not> is_data_eval_owned (object_runtime (snd (BKE_pointcloud_data_update (stage_env False) viewport 0
      object_memory (pointcloud_object [a_modifier]))))"
    using n data_update_ownership_flag [OF d object_free_derived_caches object_evaluate_disabled e]
    by simp
  have discard: "data_eval (object_runtime (snd (BKE_pointcloud_data_update (stage_env True) viewport 0
      object_memory (pointcloud_object [a_modifier])))) = Some 2 \<and>
    is_data_eval_owned (object_runtime (snd (BKE_pointcloud_data_update (stage_env True) viewport 0
      object_memory (pointcloud_object [a_modifier]))))"
    using h l data_update_ownership_flag [OF d object_free_derived_caches object_evaluate_discard e]
    by simp
  have replace: "data_eval (object_runtime (snd (BKE_pointcloud_data_update stages_env viewport 0
      object_memory (pointcloud_object [replace_modifier])))) = Some 2 \<and>
    is_data_eval_owned (object_runtime (snd (BKE_pointcloud_data_update stages_env viewport 0
      object_memory (pointcloud_object [replace_modifier])))) \<and>
    geometry_set_eval (object_runtime (snd (BKE_pointcloud_data_update stages_env viewport 0
      object_memory (pointcloud_object [replace_modifier])))) =
      Some (GeometrySet_from_pointcloud (Some 2) ReadOnly) \<and>
    fst (BKE_pointcloud_data_update stages_env viewport 0
      object_memory (pointcloud_object [replace_modifier])) =
      fst (BKE_pointcloud_new_nomain object_memory 1)"
    using data_update_ownership_flag [OF d object_free_derived_caches object_evaluate_replace e]
    by (simp add: GeometrySet_from_pointcloud_def)
  have retag: "data_eval (object_runtime (snd (BKE_pointcloud_data_update stages_env viewport 0
      object_memory (pointcloud_object [retag_modifier])))) = Some 0 \<and>
    \<not> is_data_eval_owned (object_runtime (snd (BKE_pointcloud_data_update stages_env viewport 0
      object_memory (pointcloud_object [retag_modifier])))) \<and>
    geometry_set_eval (object_runtime (snd (BKE_pointcloud_data_update stages_env viewport 0
      object_memory (pointcloud_object [retag_modifier])))) =
      Some (GeometrySet_from_pointcloud (Some 0) ReadOnly) \<and>
    fst (BKE_pointcloud_data_update stages_env viewport 0
      object_memory (pointcloud_object [retag_modifier])) = object_memory"
    using data_update_ownership_flag [OF d object_free_derived_caches object_evaluate_retag e]
    by (simp add: GeometrySet_from_pointcloud_def)
  show ?thesis
    using d none disabled discard replace retag by simp
qed

theorem data_update_synthesizes_empty_witness:
  "BKE_object_free_derived_caches object_memory (pointcloud_object [a_modifier]) =
     (object_memory, pointcloud_object [a_modifier]) \<and>
   pointcloud_evaluate_modifiers (stage_env True) viewport 0 (pointcloud_object [a_modifier])
     (object_memory, GeometrySet_from_pointcloud (object_data (pointcloud_object [a_modifier])) ReadOnly) =
     (pointcloud_object [a_modifier], object_memory, \<lparr>pointcloud_component = None\<rparr>) \<and>
   \<not> has_pointcloud \<lparr>pointcloud_component = None\<rparr> \<and>
   object_data (pointcloud_object [a_modifier]) = Some 0 \<and>
   (0::nat) < mem_lim object_memory \<and>
   mem_lim object_memory = 2 \<and>
   (\<exists>pointcloud.
      data_eval (object_runtime (snd (BKE_pointcloud_data_update (stage_env True) viewport 0
        object_memory (pointcloud_object [a_modifier])))) = Some 2 \<and>
      pointclouds (fst (BKE_pointcloud_data_update (stage_env True) viewport 0
        object_memory (pointcloud_object [a_modifier]))) 2 = Some pointcloud \<and>
      totpoint pointcloud = 0 \<and>
      is_data_eval_owned (object_runtime (snd (BKE_pointcloud_data_update (stage_env True) viewport 0
        object_memory (pointcloud_object [a_modifier])))))"
proof -
  have d: "object_data (pointcloud_object [a_modifier]) = Some 0"
    by (simp add: pointcloud_object_def)
  have l: "mem_lim object_memory = 2"
    by (simp add: object_memory_def one_point_memory_def)
  have ev: "pointcloud_evaluate_modifiers (stage_env True) viewport 0 (pointcloud_object [a_modifier])
     (object_memory, GeometrySet_from_pointcloud (object_data (pointcloud_object [a_modifier])) ReadOnly) =
     (pointcloud_object [a_modifier], object_memory, \<lparr>pointcloud_component = None\<rparr>)"
    by (simp add: d object_evaluate_discard)
  have h: "\<not> has_pointcloud \<lparr>pointcloud_component = None\<rparr>"
    by (simp add: has_pointcloud_def)
  have a: "\<forall>p. object_data (pointcloud_object [a_modifier]) = Some p \<longrightarrow> p < mem_lim object_memory"
    by (simp add: d l)
  have e: "BKE_pointcloud_data_update (stage_env True) viewport 0 object_memory
        (pointcloud_object [a_modifier]) =
      (fst (BKE_pointcloud_data_update (stage_env True) viewport 0 object_memory
         (pointcloud_object [a_modifier])),
       snd (BKE_pointcloud_data_update (stage_env True) viewport 0 object_memory
         (pointcloud_object [a_modifier])))"
    by simp
  show ?thesis
    using d l ev h object_free_derived_caches [of "[a_modifier]"]
      data_update_synthesizes_empty [OF object_free_derived_caches ev h a e]
    by auto
qed

section \<open>Copying\<close>

lemma duplicate_layers_frame:
  "duplicate_layers f m ls = (m', ls') \<Longrightarrow>
   mem_lim m' = mem_lim m + length ls \<and>
   length ls' = length ls \<and>
   (\<forall>i. i < length ls \<longrightarrow> layer_data (ls' ! i) = mem_lim m + i) \<and>
   map layer_name ls' = map layer_name ls \<and>
   map layer_type ls' = map layer_type ls \<and>
   mat_arrays m' = mat_arrays m \<and>
   pointclouds m' = pointclouds m \<and>
   (\<forall>a. a < mem_lim m \<longrightarrow> arrays m' a = arrays m a)"
proof (induction ls arbitrary: m m' ls')
  case Nil
  then show ?case by simp
next
  case (Cons l ls)
  let ?m2 = "m\<lparr>mem_lim := Suc (mem_lim m),
               arrays := (arrays m)(mem_lim m := map_option f (arrays m (layer_data l)))\<rparr>"
  obtain m3 ls3 where d: "duplicate_layers f ?m2 ls = (m3, ls3)"
    by (cases "duplicate_layers f ?m2 ls") auto
  with Cons.prems have r: "m' = m3" "ls' = l\<lparr>layer_data := mem_lim m\<rparr> # ls3"
    by (simp_all add: MEM_alloc_def Let_def)
  from Cons.IH [OF d] show ?case
    by (auto simp: r nth_Cons split: nat.splits)
qed

lemma duplicate_layers_contents:
  "duplicate_layers f m ls = (m', ls') \<Longrightarrow>
   \<forall>l \<in> set ls. layer_data l < mem_lim m \<Longrightarrow>
   i < length ls \<Longrightarrow>
   arrays m' (mem_lim m + i) = map_option f (arrays m (layer_data (ls ! i)))"
proof (induction ls arbitrary: m m' ls' i)
  case Nil
  then show ?case by simp
next
  case (Cons l ls)
  let ?m2 = "m\<lparr>mem_lim := Suc (mem_lim m),
               arrays := (arrays m)(mem_lim m := map_option f (arrays m (layer_data l)))\<rparr>"
  obtain m3 ls3 where d: "duplicate_layers f ?m2 ls = (m3, ls3)"
    by (cases "duplicate_layers f ?m2 ls") auto
  with Cons.prems(1) have r: "m' = m3"
    by (simp add: MEM_alloc_def Let_def)
  note fr = duplicate_layers_frame [OF d]
  show ?case
  proof (cases i)
    case 0
    have "arrays m3 (mem_lim m) = arrays ?m2 (mem_lim m)"
      using fr by simp
    then show ?thesis
      using 0 r by simp
  next
    case (Suc j)
    have below: "\<forall>l \<in> set ls. layer_data l < mem_lim ?m2"
      using Cons.prems(2) by auto
    have j: "j < length ls"
      using Cons.prems(3) Suc by simp
    have "layer_data (ls ! j) < mem_lim m"
      using Cons.prems(2) j by simp
    then have "arrays ?m2 (layer_data (ls ! j)) = arrays m (layer_data (ls ! j))"
      by simp
    with Cons.IH [OF d below j] show ?thesis
      using Suc r by simp
  qed
qed

lemma MEM_dupallocN_frame:
  "MEM_dupallocN m vmemh = (m', r) \<Longrightarrow>
   arrays m' = arrays m \<and> pointclouds m' = pointclouds m \<and> mem_lim m \<le> mem_lim m' \<and>
   (\<forall>a. a < mem_lim m \<longrightarrow> mat_arrays m' a = mat_arrays m a)"
  by (auto simp: MEM_dupallocN_def MEM_alloc_def Let_def split: option.splits)

lemma MEM_dupallocN_copy:
  "MEM_dupallocN m (Some a) = (m', r) \<Longrightarrow> mat_arrays m a = Some ms \<Longrightarrow> a < mem_lim m \<Longrightarrow>
   r = Some (mem_lim m) \<and> mem_lim m \<noteq> a \<and> mat_arrays m' (mem_lim m) = Some ms \<and>
   mat_arrays m' a = Some ms"
  by (auto simp: MEM_dupallocN_def MEM_alloc_def Let_def)

lemma pointcloud_copy_data_steps:
  assumes "pointcloud_copy_data m pointcloud_dst pointcloud_src = (m', dst)"
  obtains m1 m2 mat_dst pdata_dst storage_dst where
    "MEM_dupallocN m (mat pointcloud_src) = (m1, mat_dst)"
    "duplicate_layers (take (nat (totpoint pointcloud_dst))) m1 (pdata pointcloud_src) = (m2, pdata_dst)"
    "duplicate_layers (\<lambda>vs. vs) m2 (attribute_storage pointcloud_src) = (m', storage_dst)"
    "mat dst = mat_dst" "pdata dst = pdata_dst" "attribute_storage dst = storage_dst"
    "bounds_cache (runtime dst) = bounds_cache (runtime pointcloud_src)"
    "bounds_with_radius_cache (runtime dst) = bounds_with_radius_cache (runtime pointcloud_src)"
    "bvh_cache (runtime dst) = bvh_cache (runtime pointcloud_src)"
    "bake_materials (runtime dst) = bake_materials (runtime pointcloud_src)"
    "batch_cache dst = None" "totpoint dst = totpoint pointcloud_dst"
proof -
  obtain m1 mat_dst where 1: "MEM_dupallocN m (mat pointcloud_src) = (m1, mat_dst)"
    by (cases "MEM_dupallocN m (mat pointcloud_src)") auto
  obtain m2 pdata_dst where 2:
    "duplicate_layers (take (nat (totpoint pointcloud_dst))) m1 (pdata pointcloud_src) = (m2, pdata_dst)"
    by (cases "duplicate_layers (take (nat (totpoint pointcloud_dst))) m1 (pdata pointcloud_src)") auto
  obtain m3 storage_dst where 3:
    "duplicate_layers (\<lambda>vs. vs) m2 (attribute_storage pointcloud_src) = (m3, storage_dst)"
    by (cases "duplicate_layers (\<lambda>vs. vs) m2 (attribute_storage pointcloud_src)") auto
  from assms 1 2 3 have "m' = m3" and
    "dst = pointcloud_dst\<lparr>mat := mat_dst, pdata := pdata_dst, attribute_storage := storage_dst,
       runtime := (case bake_materials (runtime pointcloud_src) of
                     None \<Rightarrow> new_PointCloudRuntime
                       \<lparr>bounds_cache := bounds_cache (runtime pointcloud_src),
                        bounds_with_radius_cache := bounds_with_radius_cache (runtime pointcloud_src),
                        bvh_cache := bvh_cache (runtime pointcloud_src)\<rparr>
                   | Some ms \<Rightarrow> new_PointCloudRuntime
                       \<lparr>bounds_cache := bounds_cache (runtime pointcloud_src),
                        bounds_with_radius_cache := bounds_with_radius_cache (runtime pointcloud_src),
                        bvh_cache := bvh_cache (runtime pointcloud_src),
                        bake_materials := Some ms\<rparr>),
       batch_cache := None\<rparr>"
    by (simp_all add: pointcloud_copy_data_def CustomData_init_from_def AttributeStorage_copy_def
        Let_def)
  with 1 2 3 that [of m1 mat_dst m2 pdata_dst storage_dst] show thesis
    by (auto simp: new_PointCloudRuntime_def split: option.splits)
qed

text \<open>
  C9. \<open>pointcloud_copy_data\<close> on a source whose arrays are allocated blocks: the copy has
  the source's layers, by name and type and in the same order, each with an array of its
  own that holds the source's values (the first \<open>totpoint\<close> of the destination, which
  \<open>BKE_libblock_copy\<close> has set to the source's). No array of the copy is an array of the
  source, so a write to an attribute of the copy leaves every attribute of the source as
  it was before the copy, and a write to an attribute of the source leaves the copy's as
  they are. The copy's bounds, bounds-with-radius and acceleration-structure caches are
  the source's, and its material array is a fresh block holding the source's materials.
\<close>

theorem copy_data_value_distinct:
  assumes "pointcloud_copy_data m pointcloud_dst pointcloud_src = (m', dst)"
    and "\<forall>l \<in> set (pdata pointcloud_src) \<union> set (attribute_storage pointcloud_src).
           layer_data l < mem_lim m"
    and "\<forall>a. mat pointcloud_src = Some a \<longrightarrow> a < mem_lim m"
  shows
    "map layer_name (pdata dst) = map layer_name (pdata pointcloud_src) \<and>
     map layer_type (pdata dst) = map layer_type (pdata pointcloud_src) \<and>
     map layer_name (attribute_storage dst) = map layer_name (attribute_storage pointcloud_src) \<and>
     map layer_type (attribute_storage dst) = map layer_type (attribute_storage pointcloud_src) \<and>
     (\<forall>i. i < length (pdata pointcloud_src) \<longrightarrow>
        arrays m' (layer_data (pdata dst ! i)) =
          map_option (take (nat (totpoint pointcloud_dst)))
            (arrays m (layer_data (pdata pointcloud_src ! i)))) \<and>
     (\<forall>i. i < length (attribute_storage pointcloud_src) \<longrightarrow>
        arrays m' (layer_data (attribute_storage dst ! i)) =
          arrays m (layer_data (attribute_storage pointcloud_src ! i))) \<and>
     (\<forall>ld \<in> set (pdata dst) \<union> set (attribute_storage dst).
        \<forall>ls \<in> set (pdata pointcloud_src) \<union> set (attribute_storage pointcloud_src).
          layer_data ld \<noteq> layer_data ls \<and>
          (\<forall>vs. arrays (write_array m' (layer_data ld) vs) (layer_data ls) =
                  arrays m (layer_data ls) \<and>
                arrays (write_array m' (layer_data ls) vs) (layer_data ld) =
                  arrays m' (layer_data ld))) \<and>
     bounds_cache (runtime dst) = bounds_cache (runtime pointcloud_src) \<and>
     bounds_with_radius_cache (runtime dst) = bounds_with_radius_cache (runtime pointcloud_src) \<and>
     bvh_cache (runtime dst) = bvh_cache (runtime pointcloud_src) \<and>
     (mat pointcloud_src = None \<longrightarrow> mat dst = None) \<and>
     (\<forall>a ms. mat pointcloud_src = Some a \<and> mat_arrays m a = Some ms \<longrightarrow>
        (\<exists>b. mat dst = Some b \<and> b \<noteq> a \<and> mat_arrays m' b = Some ms \<and> mat_arrays m' a = Some ms))"
proof -
  from assms(1) obtain m1 m2 mat_dst pdata_dst storage_dst where
    s1: "MEM_dupallocN m (mat pointcloud_src) = (m1, mat_dst)" and
    s2: "duplicate_layers (take (nat (totpoint pointcloud_dst))) m1 (pdata pointcloud_src) = (m2, pdata_dst)" and
    s3: "duplicate_layers (\<lambda>vs. vs) m2 (attribute_storage pointcloud_src) = (m', storage_dst)" and
    d: "mat dst = mat_dst" "pdata dst = pdata_dst" "attribute_storage dst = storage_dst" and
    r: "bounds_cache (runtime dst) = bounds_cache (runtime pointcloud_src)"
       "bounds_with_radius_cache (runtime dst) = bounds_with_radius_cache (runtime pointcloud_src)"
       "bvh_cache (runtime dst) = bvh_cache (runtime pointcloud_src)"
    by (rule pointcloud_copy_data_steps)
  note f1 = MEM_dupallocN_frame [OF s1]
  note f2 = duplicate_layers_frame [OF s2]
  note f3 = duplicate_layers_frame [OF s3]
  have src_below: "layer_data l < mem_lim m"
    if "l \<in> set (pdata pointcloud_src) \<union> set (attribute_storage pointcloud_src)" for l
    using assms(2) that by blast
  have below1: "\<forall>l \<in> set (pdata pointcloud_src). layer_data l < mem_lim m1"
    using src_below f1 by fastforce
  have below2: "\<forall>l \<in> set (attribute_storage pointcloud_src). layer_data l < mem_lim m2"
    using src_below f1 f2 by fastforce
  have old: "arrays m' a = arrays m a" if "a < mem_lim m" for a
  proof -
    have "arrays m' a = arrays m2 a"
      using f3 f2 f1 that by simp
    also have "\<dots> = arrays m1 a"
      using f2 f1 that by simp
    finally show ?thesis
      using f1 by simp
  qed
  have names: "map layer_name (pdata dst) = map layer_name (pdata pointcloud_src) \<and>
     map layer_type (pdata dst) = map layer_type (pdata pointcloud_src) \<and>
     map layer_name (attribute_storage dst) = map layer_name (attribute_storage pointcloud_src) \<and>
     map layer_type (attribute_storage dst) = map layer_type (attribute_storage pointcloud_src)"
    using f2 f3 d by simp
  have pvals: "arrays m' (layer_data (pdata dst ! i)) =
          map_option (take (nat (totpoint pointcloud_dst)))
            (arrays m (layer_data (pdata pointcloud_src ! i)))"
    if i: "i < length (pdata pointcloud_src)" for i
  proof -
    have "layer_data (pdata dst ! i) = mem_lim m1 + i"
      using f2 d i by simp
    moreover have "mem_lim m1 + i < mem_lim m2"
      using f2 i by simp
    then have "arrays m' (mem_lim m1 + i) = arrays m2 (mem_lim m1 + i)"
      using f3 by simp
    moreover have "arrays m2 (mem_lim m1 + i) =
        map_option (take (nat (totpoint pointcloud_dst)))
          (arrays m1 (layer_data (pdata pointcloud_src ! i)))"
      using duplicate_layers_contents [OF s2 below1 i] .
    ultimately show ?thesis
      using f1 by simp
  qed
  have svals: "arrays m' (layer_data (attribute_storage dst ! i)) =
          arrays m (layer_data (attribute_storage pointcloud_src ! i))"
    if i: "i < length (attribute_storage pointcloud_src)" for i
  proof -
    have "layer_data (attribute_storage dst ! i) = mem_lim m2 + i"
      using f3 d i by simp
    moreover have "arrays m' (mem_lim m2 + i) =
        map_option (\<lambda>vs. vs) (arrays m2 (layer_data (attribute_storage pointcloud_src ! i)))"
      using duplicate_layers_contents [OF s3 below2 i] .
    moreover have "layer_data (attribute_storage pointcloud_src ! i) < mem_lim m"
      using src_below i by simp
    then have "arrays m2 (layer_data (attribute_storage pointcloud_src ! i)) =
        arrays m (layer_data (attribute_storage pointcloud_src ! i))"
      using f2 f1 by simp
    ultimately show ?thesis
      by (simp add: option.map_ident)
  qed
  have dst_above: "mem_lim m \<le> layer_data ld"
    if "ld \<in> set (pdata dst) \<union> set (attribute_storage dst)" for ld
  proof -
    from that consider i where "i < length (pdata pointcloud_src)" "ld = pdata dst ! i"
      | j where "j < length (attribute_storage pointcloud_src)" "ld = attribute_storage dst ! j"
      using f2 f3 d by (auto simp: in_set_conv_nth)
    then show ?thesis
    proof cases
      case 1
      then show ?thesis using f1 f2 d by simp
    next
      case 2
      then show ?thesis using f1 f2 f3 d by simp
    qed
  qed
  have distinct: "layer_data ld \<noteq> layer_data ls \<and>
          (\<forall>vs. arrays (write_array m' (layer_data ld) vs) (layer_data ls) =
                  arrays m (layer_data ls) \<and>
                arrays (write_array m' (layer_data ls) vs) (layer_data ld) =
                  arrays m' (layer_data ld))"
    if "ld \<in> set (pdata dst) \<union> set (attribute_storage dst)"
      and "ls \<in> set (pdata pointcloud_src) \<union> set (attribute_storage pointcloud_src)" for ld ls
    using dst_above [OF that(1)] src_below [OF that(2)] old [OF src_below [OF that(2)]]
    by (auto simp: write_array_def)
  have mat_none: "mat dst = None" if "mat pointcloud_src = None"
    using s1 d that by (simp add: MEM_dupallocN_def)
  have mat_some: "\<exists>b. mat dst = Some b \<and> b \<noteq> a \<and> mat_arrays m' b = Some ms \<and> mat_arrays m' a = Some ms"
    if "mat pointcloud_src = Some a \<and> mat_arrays m a = Some ms" for a ms
  proof -
    from that assms(3) have a: "a < mem_lim m"
      by blast
    from MEM_dupallocN_copy [OF s1 [unfolded conjunct1 [OF that]] conjunct2 [OF that] a]
    show ?thesis
      using d f2 f3 by auto
  qed
  from names pvals svals distinct r mat_none mat_some show ?thesis
    by blast
qed

lemma copy_result_eval:
  "pdata (snd copy_result) =
     [\<lparr>layer_type = CD_PROP_FLOAT3, layer_name = ''position'', layer_data = 5\<rparr>,
      \<lparr>layer_type = CD_PROP_FLOAT, layer_name = ''radius'', layer_data = 6\<rparr>] \<and>
   attribute_storage (snd copy_result) = [] \<and>
   mat (snd copy_result) = Some 4"
  by (simp add: copy_result_def pointcloud_copy_data_def copy_memory_def copy_source_def
      MEM_dupallocN_def MEM_alloc_def CustomData_init_from_def AttributeStorage_copy_def Let_def)

theorem copy_data_value_distinct_witness:
  "pdata copy_source =
     [\<lparr>layer_type = CD_PROP_FLOAT3, layer_name = ''position'', layer_data = 1\<rparr>,
      \<lparr>layer_type = CD_PROP_FLOAT, layer_name = ''radius'', layer_data = 2\<rparr>] \<and>
   attribute_storage copy_source = [] \<and>
   mat copy_source = Some 3 \<and>
   mem_lim copy_memory = 4 \<and>
   arrays copy_memory 1 = Some [VFloat3 (float3 0 0 0), VFloat3 (float3 1 1 1)] \<and>
   arrays copy_memory 2 = Some [VFloat 5, VFloat 0] \<and>
   mat_arrays copy_memory 3 = Some [Some 7] \<and>
   pdata (snd copy_result) =
     [\<lparr>layer_type = CD_PROP_FLOAT3, layer_name = ''position'', layer_data = 5\<rparr>,
      \<lparr>layer_type = CD_PROP_FLOAT, layer_name = ''radius'', layer_data = 6\<rparr>] \<and>
   arrays (fst copy_result) 5 = Some [VFloat3 (float3 0 0 0), VFloat3 (float3 1 1 1)] \<and>
   arrays (fst copy_result) 6 = Some [VFloat 5, VFloat 0] \<and>
   arrays (write_array (fst copy_result) 6 [VFloat 1, VFloat 1]) 2 = Some [VFloat 5, VFloat 0] \<and>
   arrays (write_array (fst copy_result) 2 [VFloat 1, VFloat 1]) 6 = Some [VFloat 5, VFloat 0] \<and>
   bounds_cache (runtime (snd copy_result)) =
     Valid \<lparr>bounds_min = float3 0 0 0, bounds_max = float3 1 1 1\<rparr> \<and>
   bounds_with_radius_cache (runtime (snd copy_result)) =
     Valid \<lparr>bounds_min = float3 (- 5) (- 5) (- 5), bounds_max = float3 5 5 5\<rparr> \<and>
   bvh_cache (runtime (snd copy_result)) = Valid 42 \<and>
   mat (snd copy_result) = Some 4 \<and>
   mat_arrays (fst copy_result) 4 = Some [Some 7] \<and>
   mat_arrays (fst copy_result) 3 = Some [Some 7]"
proof -
  have e: "pointcloud_copy_data copy_memory copy_source copy_source =
      (fst copy_result, snd copy_result)"
    by (simp add: copy_result_def)
  have src: "pdata copy_source =
     [\<lparr>layer_type = CD_PROP_FLOAT3, layer_name = ''position'', layer_data = 1\<rparr>,
      \<lparr>layer_type = CD_PROP_FLOAT, layer_name = ''radius'', layer_data = 2\<rparr>] \<and>
     attribute_storage copy_source = [] \<and> mat copy_source = Some 3 \<and>
     totpoint copy_source = 2 \<and>
     runtime copy_source =
       \<lparr>bounds_cache = Valid \<lparr>bounds_min = float3 0 0 0, bounds_max = float3 1 1 1\<rparr>,
        bounds_with_radius_cache =
          Valid \<lparr>bounds_min = float3 (- 5) (- 5) (- 5), bounds_max = float3 5 5 5\<rparr>,
        bvh_cache = Valid 42, bake_materials = None\<rparr>"
    by (simp add: copy_source_def)
  have mem: "mem_lim copy_memory = 4 \<and>
     arrays copy_memory 1 = Some [VFloat3 (float3 0 0 0), VFloat3 (float3 1 1 1)] \<and>
     arrays copy_memory 2 = Some [VFloat 5, VFloat 0] \<and>
     mat_arrays copy_memory 3 = Some [Some 7]"
    by (simp add: copy_memory_def)
  have h2: "\<forall>l \<in> set (pdata copy_source) \<union> set (attribute_storage copy_source).
      layer_data l < mem_lim copy_memory"
    using src mem by simp
  have h3: "\<forall>a. mat copy_source = Some a \<longrightarrow> a < mem_lim copy_memory"
    using src mem by simp
  note t = copy_data_value_distinct [OF e h2 h3]
  have p0: "arrays (fst copy_result) (layer_data (pdata (snd copy_result) ! 0)) =
      map_option (take (nat (totpoint copy_source)))
        (arrays copy_memory (layer_data (pdata copy_source ! 0)))"
    using t src by simp
  have p1: "arrays (fst copy_result) (layer_data (pdata (snd copy_result) ! 1)) =
      map_option (take (nat (totpoint copy_source)))
        (arrays copy_memory (layer_data (pdata copy_source ! 1)))"
    using t src by simp
  have w: "arrays (write_array (fst copy_result) 6 [VFloat 1, VFloat 1]) 2 = arrays copy_memory 2 \<and>
      arrays (write_array (fst copy_result) 2 [VFloat 1, VFloat 1]) 6 = arrays (fst copy_result) 6"
    using t src copy_result_eval by simp
  have c: "bounds_cache (runtime (snd copy_result)) = bounds_cache (runtime copy_source) \<and>
      bounds_with_radius_cache (runtime (snd copy_result)) =
        bounds_with_radius_cache (runtime copy_source) \<and>
      bvh_cache (runtime (snd copy_result)) = bvh_cache (runtime copy_source)"
    using t by simp
  have m: "\<exists>b. mat (snd copy_result) = Some b \<and> b \<noteq> 3 \<and>
      mat_arrays (fst copy_result) b = Some [Some 7] \<and> mat_arrays (fst copy_result) 3 = Some [Some 7]"
    using t src mem by blast
  show ?thesis
    using src mem copy_result_eval p0 p1 w c m by auto
qed

end
